theory Spec2Isabelle
  imports Main
begin

section \<open>Agent installation command planning (apps/backend/agent/tools.py)\<close>

text \<open>
  A shallow embedding of \<^verbatim>\<open>apps/backend/agent/tools.py\<close>. Every exception of the
  source is a value of \<open>error\<close>; a function that can raise returns \<open>error + 'a\<close>.
  Values that the module reads from elsewhere (Django settings, the constants modules,
  the cipher, the clock, the record store) are fields of the record \<open>env\<close>.
\<close>

subsection \<open>Python strings\<close>

text \<open>\<^verbatim>\<open>sep.join(xs)\<close>\<close>

fun join :: "string \<Rightarrow> string list \<Rightarrow> string" where
  "join sep [] = []"
| "join sep [x] = x"
| "join sep (x # y # ys) = x @ sep @ join sep (y # ys)"

text \<open>\<^verbatim>\<open>s.startswith(p)\<close>\<close>

fun startswith :: "string \<Rightarrow> string \<Rightarrow> bool" where
  "startswith [] s = True"
| "startswith (p # ps) [] = False"
| "startswith (p # ps) (c # cs) = (p = c \<and> startswith ps cs)"

text \<open>The rest of \<open>s\<close> after the prefix \<open>p\<close>, when \<open>s\<close> starts with \<open>p\<close>.\<close>

fun strip_prefix :: "string \<Rightarrow> string \<Rightarrow> string option" where
  "strip_prefix [] s = Some s"
| "strip_prefix (p # ps) [] = None"
| "strip_prefix (p # ps) (c # cs) = (if p = c then strip_prefix ps cs else None)"

definition strip_suffix :: "string \<Rightarrow> string \<Rightarrow> string option" where
  "strip_suffix p s = map_option rev (strip_prefix (rev p) (rev s))"

text \<open>\<^verbatim>\<open>s.lower()\<close> on ASCII text (the OS tags of the program are ASCII).\<close>

definition lower_char :: "char \<Rightarrow> char" where
  "lower_char c =
     (case map_of (zip ''ABCDEFGHIJKLMNOPQRSTUVWXYZ'' ''abcdefghijklmnopqrstuvwxyz'') c of
        Some d \<Rightarrow> d
      | None \<Rightarrow> c)"

definition lower :: "string \<Rightarrow> string" where
  "lower s = map lower_char s"

text \<open>\<^verbatim>\<open>str(n)\<close> for an integer, as an f-string renders it.\<close>

fun str_nat :: "nat \<Rightarrow> string" where
  "str_nat n =
     (if n < 10 then [''0123456789'' ! n]
      else str_nat (n div 10) @ [''0123456789'' ! (n mod 10)])"

declare str_nat.simps [simp del]

definition str_int :: "int \<Rightarrow> string" where
  "str_int i = (if i < 0 then CHR ''-'' # str_nat (nat (- i)) else str_nat (nat i))"

text \<open>\<^verbatim>\<open>f"{d.get(k)}"\<close>: a missing key renders as \<^verbatim>\<open>None\<close>.\<close>

definition str_opt_int :: "int option \<Rightarrow> string" where
  "str_opt_int v = (case v of None \<Rightarrow> ''None'' | Some i \<Rightarrow> str_int i)"

text \<open>\<^verbatim>\<open>a or b\<close> on strings: the empty string (and \<^verbatim>\<open>None\<close>, modelled as the empty
  string) is falsy.\<close>

definition str_or :: "string \<Rightarrow> string \<Rightarrow> string" where
  "str_or a b = (if a \<noteq> [] then a else b)"

text \<open>\<^verbatim>\<open>list(set(xs))\<close> on strings: the distinct elements, in an order that the
  elements' hashes decide (insertion order between equal hashes).\<close>

definition list_of_set :: "(string \<Rightarrow> nat) \<Rightarrow> string list \<Rightarrow> string list" where
  "list_of_set hash xs = sort_key hash (remdups xs)"

text \<open>Iterating a Python string gives its characters as one-character strings.\<close>

definition chars_of :: "string \<Rightarrow> string list" where
  "chars_of s = map (\<lambda>c. [c]) s"

subsection \<open>Data model\<close>

datatype error = GenCommandsError | KeyError | AttributeError | AliveProxyNotExistsError

datatype node_type = AGENT | PROXY | PAGENT

datatype auth_type = KEY | PASSWORD

text \<open>The value of a \<open>NodeType\<close> member, as an f-string renders it.\<close>

fun str_node_type :: "node_type \<Rightarrow> string" where
  "str_node_type AGENT = ''AGENT''"
| "str_node_type PROXY = ''PROXY''"
| "str_node_type PAGENT = ''PAGENT''"

text \<open>\<^verbatim>\<open>models.Host\<close>: the fields this module reads. \<open>login_ip\<close> is the empty string
  when unset; \<open>install_channel_id\<close> is \<open>None\<close> when the host has no install channel.\<close>

record host =
  bk_host_id :: int
  bk_cloud_id :: int
  inner_ip :: string
  login_ip :: string
  os_type :: string
  node_type :: node_type
  install_channel_id :: "int option"
  is_manual :: bool
  ap_id :: int

text \<open>One entry of a server pool: \<^verbatim>\<open>{"inner_ip": ..., "outer_ip": ...}\<close>.\<close>

record server =
  server_inner_ip :: string
  server_outer_ip :: string

text \<open>\<^verbatim>\<open>{"setup_path": ..., "temp_path": ...}\<close>\<close>

record agent_config =
  setup_path :: string
  temp_path :: string

text \<open>\<^verbatim>\<open>models.AccessPoint\<close>. \<open>outer_callback_url\<close> is the empty string when unset;
  \<open>port_config\<close> and \<open>agent_config_map\<close> are dictionaries.\<close>

record access_point =
  btfileserver :: "server list"
  dataserver :: "server list"
  taskserver :: "server list"
  package_inner_url :: string
  package_outer_url :: string
  outer_callback_url :: string
  port_config :: "(string \<times> int) list"
  agent_config_map :: "(string \<times> agent_config) list"

record identity_data =
  identity_bk_host_id :: int
  auth_type :: auth_type
  key :: string
  password :: string
  account :: string
  port :: int

text \<open>The dictionary of an install channel: the three pools (a missing key raises
  \<^verbatim>\<open>KeyError\<close>) and the two optional settings read with \<^verbatim>\<open>.get\<close>.\<close>

record upstream_servers =
  us_btfileserver :: "string list option"
  us_dataserver :: "string list option"
  us_taskserver :: "string list option"
  agent_download_proxy :: "bool option"
  channel_proxy_address :: "string option"

type_synonym install_channel = "host option \<times> upstream_servers"

record installation_tools =
  script_file_name :: string
  dest_dir :: string
  win_commands :: "string list"
  upstream_nodes :: "string list"
  jump_server :: "host option"
  pre_commands :: "string list"
  run_cmd :: string
  plan_host :: host
  plan_ap :: access_point
  plan_identity_data :: identity_data
  plan_proxies :: "host list"

subsection \<open>What the module reads from outside\<close>

text \<open>\<^verbatim>\<open>django.conf.settings\<close>\<close>

record settings =
  BK_NODEMAN_NGINX_DOWNLOAD_PORT :: int
  BK_NODEMAN_NGINX_PROXY_PASS_PORT :: int
  BKAPP_NODEMAN_CALLBACK_URL :: string
  BKAPP_NODEMAN_OUTER_CALLBACK_URL :: string
  DOWNLOAD_PATH :: string

text \<open>The members of \<^verbatim>\<open>apps.node_man.constants\<close> (\<open>OsType\<close>, \<open>SCRIPT_FILE_NAME_MAP\<close>,
  \<open>SetupScriptFileName\<close>) and of \<^verbatim>\<open>apps.backend.api.constants\<close> (\<open>OS\<close>, \<open>SUFFIX_MAP\<close>)
  that the module uses. Their values are not part of this module.\<close>

record constants =
  OsType_LINUX :: string
  OsType_WINDOWS :: string
  OS_WINDOWS :: string
  OS_AIX :: string
  SUFFIX_MAP :: "(string \<times> string) list"
  SCRIPT_FILE_NAME_MAP :: "(string \<times> string) list"
  SETUP_PAGENT_PY :: string
  GSECTL_BAT :: string

text \<open>
  The environment of a call:
  \<^item> \<open>suffix_slash\<close> is \<^verbatim>\<open>apps.utils.basic.suffix_slash\<close>;
  \<^item> \<open>encrypt\<close> is \<^verbatim>\<open>aes_cipher.encrypt\<close>, \<open>time_now\<close> the text of \<^verbatim>\<open>time.time()\<close>;
  \<^item> \<open>str_hash\<close> orders the elements of a \<^verbatim>\<open>set\<close> of strings;
  \<^item> \<open>is_alive\<close> and \<open>random_index\<close> decide \<^verbatim>\<open>Host.get_random_alive_proxy\<close>;
  \<^item> \<open>host_ap\<close>, \<open>host_identity\<close>, \<open>host_install_channel\<close>, \<open>host_proxies\<close> are the
    properties \<^verbatim>\<open>host.ap\<close>, \<^verbatim>\<open>host.identity\<close>, \<^verbatim>\<open>host.install_channel\<close>,
    \<^verbatim>\<open>host.proxies\<close> of the record store;
  \<^item> \<open>ap_id_obj_map\<close> is \<^verbatim>\<open>AccessPoint.ap_id_obj_map()\<close> and \<open>identity_objects\<close> the
    table behind \<^verbatim>\<open>IdentityData.objects\<close>.
\<close>

record env =
  settings :: settings
  const :: constants
  suffix_slash :: "string \<Rightarrow> string \<Rightarrow> string"
  encrypt :: "string \<Rightarrow> string"
  time_now :: string
  str_hash :: "string \<Rightarrow> nat"
  is_alive :: "host \<Rightarrow> bool"
  random_index :: "host list \<Rightarrow> nat"
  host_ap :: "host \<Rightarrow> access_point"
  host_identity :: "host \<Rightarrow> identity_data"
  host_install_channel :: "host \<Rightarrow> install_channel"
  host_proxies :: "host \<Rightarrow> host list"
  ap_id_obj_map :: "(int \<times> access_point) list"
  identity_objects :: "identity_data list"

text \<open>\<^verbatim>\<open>if host.install_channel_id:\<close> \<open>None\<close> and \<open>0\<close> are falsy.\<close>

definition has_install_channel :: "host \<Rightarrow> bool" where
  "has_install_channel h = (case install_channel_id h of None \<Rightarrow> False | Some n \<Rightarrow> n \<noteq> 0)"

text \<open>Modelled from the spec: \<^verbatim>\<open>AccessPoint.get_agent_config\<close> is not in this module;
  the access point carries the table from OS tag to setup and temp path, and a missing
  record is fatal.\<close>

definition get_agent_config :: "access_point \<Rightarrow> string \<Rightarrow> error + agent_config" where
  "get_agent_config ap os =
     (case map_of (agent_config_map ap) os of None \<Rightarrow> Inl KeyError | Some c \<Rightarrow> Inr c)"

text \<open>Modelled from the spec: \<^verbatim>\<open>Host.get_random_alive_proxy\<close> is not in this module;
  it selects one live proxy at random from the candidates and fails when none is alive.\<close>

definition get_random_alive_proxy :: "env \<Rightarrow> host list \<Rightarrow> error + host" where
  "get_random_alive_proxy e proxies =
     (case filter (is_alive e) proxies of
        [] \<Rightarrow> Inl AliveProxyNotExistsError
      | p # ps \<Rightarrow> Inr ((p # ps) ! (random_index e (p # ps) mod length (p # ps))))"

subsection \<open>The functions of the module\<close>

definition gen_nginx_download_url :: "env \<Rightarrow> string \<Rightarrow> string" where
  "gen_nginx_download_url e nginx_ip =
     ''http://'' @ nginx_ip @ '':'' @ str_int (BK_NODEMAN_NGINX_DOWNLOAD_PORT (settings e)) @ ''/''"

type_synonym gse_servers =
  "host option \<times> string \<times> string \<times> string \<times> string \<times> string \<times> string"

definition fetch_gse_servers ::
  "env \<Rightarrow> host \<Rightarrow> access_point \<Rightarrow> host list \<Rightarrow> install_channel \<Rightarrow> error + gse_servers" where
  "fetch_gse_servers e h ap proxies install_channel =
     (if has_install_channel h then
        (case install_channel of (channel_jump_server, upstream) \<Rightarrow>
          (case us_btfileserver upstream of None \<Rightarrow> Inl KeyError | Some bts \<Rightarrow>
          (case us_dataserver upstream of None \<Rightarrow> Inl KeyError | Some dts \<Rightarrow>
          (case us_taskserver upstream of None \<Rightarrow> Inl KeyError | Some tks \<Rightarrow>
          (case channel_jump_server of None \<Rightarrow> Inl AttributeError | Some js \<Rightarrow>
            (let bt_file_servers = join '','' bts;
                 data_servers = join '','' dts;
                 task_servers = join '','' tks;
                 package_url = gen_nginx_download_url e (inner_ip js);
                 default_callback_url =
                   (if node_type h = AGENT then BKAPP_NODEMAN_CALLBACK_URL (settings e)
                    else BKAPP_NODEMAN_OUTER_CALLBACK_URL (settings e));
                 callback_url = str_or (outer_callback_url ap) default_callback_url
             in Inr (Some js, bt_file_servers, data_servers, data_servers, task_servers,
                     package_url, callback_url)))))))
      else if node_type h = AGENT then
        (let bt_file_servers = join '','' (map server_inner_ip (btfileserver ap));
             data_servers = join '','' (map server_inner_ip (dataserver ap));
             task_servers = join '','' (map server_inner_ip (taskserver ap));
             package_url = package_inner_url ap;
             callback_url = BKAPP_NODEMAN_CALLBACK_URL (settings e)
         in Inr (None, bt_file_servers, data_servers, data_servers, task_servers,
                 package_url, callback_url))
      else if node_type h = PROXY then
        (let bt_file_servers = join '','' (map server_outer_ip (btfileserver ap));
             data_servers = join '','' (map server_outer_ip (dataserver ap));
             task_servers = join '','' (map server_outer_ip (taskserver ap));
             package_url = package_outer_url ap;
             callback_url =
               str_or (outer_callback_url ap) (BKAPP_NODEMAN_OUTER_CALLBACK_URL (settings e))
         in Inr (None, bt_file_servers, data_servers, data_servers, task_servers,
                 package_url, callback_url))
      else
        (let proxy_ips = list_of_set (str_hash e) (map inner_ip proxies)
         in case get_random_alive_proxy e proxies of
              Inl err \<Rightarrow> Inl err
            | Inr js \<Rightarrow>
               (let bt_file_servers = join '','' proxy_ips;
                    data_servers = join '','' proxy_ips;
                    task_servers = join '','' proxy_ips;
                    package_url = package_outer_url ap;
                    callback_url =
                      str_or (outer_callback_url ap)
                        (BKAPP_NODEMAN_OUTER_CALLBACK_URL (settings e))
                in Inr (Some js, bt_file_servers, data_servers, data_servers, task_servers,
                        package_url, callback_url))))"

text \<open>\<^verbatim>\<open>constants.SCRIPT_FILE_NAME_MAP[os_type]\<close>\<close>

definition script_file_name_of :: "constants \<Rightarrow> string \<Rightarrow> error + string" where
  "script_file_name_of c os =
     (case map_of (SCRIPT_FILE_NAME_MAP c) os of None \<Rightarrow> Inl KeyError | Some f \<Rightarrow> Inr f)"

definition choose_script_file :: "constants \<Rightarrow> host \<Rightarrow> error + string" where
  "choose_script_file c h =
     (if node_type h = PROXY then Inr ''setup_proxy.sh''
      else if has_install_channel h \<or> node_type h = PAGENT then Inr (SETUP_PAGENT_PY c)
      else script_file_name_of c (os_type h))"

text \<open>\<^verbatim>\<open>run_cmd\<close> is \<open>None\<close> when the argument is omitted; \<open>None\<close> and the empty string
  are falsy.\<close>

definition format_run_cmd_by_os_type :: "constants \<Rightarrow> string \<Rightarrow> string option \<Rightarrow> error + string" where
  "format_run_cmd_by_os_type c os_type_arg run_cmd_arg =
     (let os_type = lower os_type_arg;
          cmd = (case run_cmd_arg of None \<Rightarrow> [] | Some s \<Rightarrow> s)
      in if os_type = OS_WINDOWS c \<and> cmd \<noteq> [] then Inr cmd
         else
           (case map_of (SUFFIX_MAP c) os_type of None \<Rightarrow> Inl KeyError | Some suffix \<Rightarrow>
           (case map_of (SUFFIX_MAP c) (OS_AIX c) of None \<Rightarrow> Inl KeyError | Some aix_suffix \<Rightarrow>
             (let shell = (if suffix \<noteq> aix_suffix then ''bash'' else suffix)
              in Inr (if cmd \<noteq> [] then ''nohup '' @ shell @ '' '' @ cmd @ '' &'' else shell)))))"

text \<open>\<^verbatim>\<open>re.match("^-r https?://.+/backend$", command)\<close>: \<^verbatim>\<open>.\<close> is any character but a
  newline, and \<^verbatim>\<open>$\<close> is the end of the string or the place before a final newline.\<close>

definition dot_plus :: "string \<Rightarrow> bool" where
  "dot_plus mid = (mid \<noteq> [] \<and> CHR 0x0A \<notin> set mid)"

definition match_dot_plus_backend_end :: "string \<Rightarrow> bool" where
  "match_dot_plus_backend_end r =
     ((case strip_suffix ''/backend'' r of None \<Rightarrow> False | Some mid \<Rightarrow> dot_plus mid) \<or>
      (case strip_suffix (''/backend'' @ [CHR 0x0A]) r of None \<Rightarrow> False | Some mid \<Rightarrow> dot_plus mid))"

definition re_match_callback :: "string \<Rightarrow> bool" where
  "re_match_callback command =
     (case strip_prefix ''-r http'' command of
        None \<Rightarrow> False
      | Some r \<Rightarrow>
         (case strip_prefix ''s://'' r of
            Some r' \<Rightarrow> match_dot_plus_backend_end r'
          | None \<Rightarrow>
             (case strip_prefix ''://'' r of
                Some r' \<Rightarrow> match_dot_plus_backend_end r'
              | None \<Rightarrow> False)))"

fun check_run_commands :: "string list \<Rightarrow> error + unit" where
  "check_run_commands [] = Inr ()"
| "check_run_commands (command # run_commands) =
     (if startswith ''-r'' command \<and> \<not> re_match_callback command then Inl GenCommandsError
      else check_run_commands run_commands)"

text \<open>\<^verbatim>\<open>s.split(c)\<close>\<close>

fun split_on :: "char \<Rightarrow> string \<Rightarrow> string list" where
  "split_on c [] = [[]]"
| "split_on c (x # xs) =
     (if x = c then [] # split_on c xs
      else (case split_on c xs of [] \<Rightarrow> [[x]] | p # ps \<Rightarrow> (x # p) # ps))"

text \<open>\<^verbatim>\<open>pathlib.Path(s)\<close> on a POSIX system, as its root and its parts: exactly two
  leading slashes are a root of their own, and empty parts and \<^verbatim>\<open>.\<close> are dropped.
  Two paths are equal when these are.\<close>

definition path_of :: "string \<Rightarrow> string \<times> string list" where
  "path_of s =
     (let n = length (takeWhile (\<lambda>c. c = CHR ''/'') s);
          root = (if n = 0 then [] else if n = 2 then ''//'' else ''/'')
      in (root, filter (\<lambda>p. p \<noteq> [] \<and> p \<noteq> ''.'') (split_on CHR ''/'' s)))"

text \<open>Lines 191 to 207 of \<^verbatim>\<open>gen_commands\<close>: the parameters common to every script.\<close>

definition run_cmd_params_base ::
  "string \<Rightarrow> string \<Rightarrow> string \<Rightarrow> string \<Rightarrow> (string \<times> int) list \<Rightarrow>
   string \<Rightarrow> string \<Rightarrow> string \<Rightarrow> string list" where
  \<open>run_cmd_params_base pipeline_id callback_url package_url token ports
       bt_file_servers data_servers task_servers =
     [''-s '' @ pipeline_id,
      ''-r '' @ callback_url,
      ''-l '' @ package_url,
      ''-c '' @ token,
      ''-O '' @ str_opt_int (map_of ports ''io_port''),
      ''-E '' @ str_opt_int (map_of ports ''file_svr_port''),
      ''-A '' @ str_opt_int (map_of ports ''data_port''),
      ''-V '' @ str_opt_int (map_of ports ''btsvr_thrift_port''),
      ''-B '' @ str_opt_int (map_of ports ''bt_port''),
      ''-S '' @ str_opt_int (map_of ports ''bt_port_start''),
      ''-Z '' @ str_opt_int (map_of ports ''bt_port_end''),
      ''-K '' @ str_opt_int (map_of ports ''tracker_port''),
      ''-e "'' @ bt_file_servers @ ''"'',
      ''-a "'' @ data_servers @ ''"'',
      ''-k "'' @ task_servers @ ''"'']\<close>

text \<open>Lines 253 to 261: the parameters of an install channel. The channel is read from
  the host again, not from the argument of \<^verbatim>\<open>gen_commands\<close>.\<close>

definition channel_params :: "env \<Rightarrow> host \<Rightarrow> string list" where
  \<open>channel_params e h =
     (if has_install_channel h then
        (case host_install_channel e h of (channel_jump_server, upstream) \<Rightarrow>
          (let adp = (case agent_download_proxy upstream of None \<Rightarrow> True | Some b \<Rightarrow> b);
               cpa = (case channel_proxy_address upstream of None \<Rightarrow> [] | Some a \<Rightarrow> a)
           in (if adp then [''-ADP '' @ [CHR 0x27] @ ''True'' @ [CHR 0x27]] else []) @
              (if cpa \<noteq> [] then [''-CPA '' @ [CHR 0x27] @ cpa @ [CHR 0x27]] else [])))
      else [])\<close>

text \<open>Lines 215 to 271: the branch of the relay script. The result is the destination
  directory, the run command and the download command.\<close>

definition pagent_branch ::
  "env \<Rightarrow> host \<Rightarrow> bool \<Rightarrow> identity_data \<Rightarrow> access_point \<Rightarrow> agent_config \<Rightarrow>
   host option \<Rightarrow> string \<Rightarrow> string \<Rightarrow> string list \<Rightarrow> error + string \<times> string \<times> string" where
  \<open>pagent_branch e h is_uninstall idt ap agent_cfg js package_url script params =
     (let params1 = params @ [''-L '' @ DOWNLOAD_PATH (settings e)]
      in case get_agent_config ap (OsType_LINUX (const e)) of
           Inl err \<Rightarrow> Inl err
         | Inr linux_cfg \<Rightarrow>
      (let dest = suffix_slash e (OsType_LINUX (const e)) (temp_path linux_cfg);
           params2 = (if is_manual h then (dest @ script @ '' '') # params1 else params1);
           host_tmp_path = suffix_slash e (lower (os_type h)) (temp_path agent_cfg);
           host_identity = (if auth_type idt = KEY then key idt else password idt)
       in case format_run_cmd_by_os_type (const e) (os_type h) None of
            Inl err \<Rightarrow> Inl err
          | Inr host_shell \<Rightarrow>
       (case script_file_name_of (const e) (os_type h) of
            Inl err \<Rightarrow> Inl err
          | Inr host_script \<Rightarrow>
       (let params3 = params2 @
              [''-HLIP '' @ str_or (login_ip h) (inner_ip h),
               ''-HIIP '' @ inner_ip h,
               ''-HA '' @ account idt,
               ''-HP '' @ str_int (port idt),
               ''-HI '' @ [CHR 0x27] @ host_identity @ [CHR 0x27],
               ''-HC '' @ str_int (bk_cloud_id h),
               ''-HNT '' @ str_node_type (node_type h),
               ''-HOT '' @ lower (os_type h),
               ''-HDD '' @ [CHR 0x27] @ host_tmp_path @ [CHR 0x27],
               ''-HPP '' @ [CHR 0x27] @
                  str_int (BK_NODEMAN_NGINX_PROXY_PASS_PORT (settings e)) @ [CHR 0x27],
               ''-HSN '' @ [CHR 0x27] @ host_script @ [CHR 0x27],
               ''-HS '' @ [CHR 0x27] @ host_shell @ [CHR 0x27]]
        in case js of
             None \<Rightarrow> Inl AttributeError
           | Some jump \<Rightarrow>
        (let params4 = params3 @
               [''-p '' @ [CHR 0x27] @ setup_path agent_cfg @ [CHR 0x27],
                ''-I '' @ inner_ip jump,
                ''-o '' @ gen_nginx_download_url e (inner_ip jump),
                (if is_uninstall then ''-R'' else [])];
             params5 = params4 @ channel_params e h;
             run = join '' '' params5;
             download =
               ''if [ ! -e '' @ dest @ script @ '' ] || '' @
               ''[ `curl '' @ package_url @ ''/'' @ script @
                  '' -s | md5sum | awk '{print $1}'` '' @
               ''!= `md5sum '' @ dest @ script @ '' | awk '{print $1}'` ]; then '' @
               ''curl '' @ package_url @ ''/'' @ script @ '' -o '' @ dest @ script @
                  '' --connect-timeout 5 -sSf '' @
               ''&& chmod +x '' @ dest @ script @ ''; fi''
         in Inr (dest, run, download))))))\<close>

text \<open>Lines 273 to 297: the branch of the proxy script and of the OS-specific scripts.
  The result is the run command, the Windows commands and the download command.\<close>

definition direct_branch ::
  "env \<Rightarrow> host \<Rightarrow> bool \<Rightarrow> access_point \<Rightarrow> agent_config \<Rightarrow> string \<Rightarrow> string \<Rightarrow>
   string \<Rightarrow> string list \<Rightarrow> error + string \<times> string list \<times> string" where
  \<open>direct_branch e h is_uninstall ap agent_cfg package_url script dest params =
     (let params1 = params @
            [''-i '' @ str_int (bk_cloud_id h),
             ''-I '' @ inner_ip h,
             ''-N SERVER'',
             ''-p '' @ setup_path agent_cfg,
             ''-T '' @ dest,
             (if is_uninstall then ''-R'' else [])]
      in case format_run_cmd_by_os_type (const e) (os_type h)
                (Some (dest @ script @ '' '' @ join '' '' params1)) of
           Inl err \<Rightarrow> Inl err
         | Inr run \<Rightarrow>
      (let win =
             (if os_type h = OsType_WINDOWS (const e) then
                [''del /q /s /f '' @ dest @ script @ '' '' @ dest @ GSECTL_BAT (const e),
                 dest @ ''curl.exe '' @ package_inner_url ap @ ''/'' @ script @
                   '' -o '' @ dest @ script @ '' -sSf'',
                 run]
              else []);
           download = ''curl '' @ package_url @ ''/'' @ script @ '' -o '' @ dest @ script @
                        '' --connect-timeout 5 -sSf''
       in Inr (run, win, download)))\<close>

text \<open>\<^verbatim>\<open>x or y\<close> where \<open>x\<close> is \<^verbatim>\<open>None\<close> or an object (an object is truthy).\<close>

fun or_else :: "'a option \<Rightarrow> 'a \<Rightarrow> 'a" where
  "or_else None y = y"
| "or_else (Some x) y = x"

text \<open>\<^verbatim>\<open>proxies or host.proxies\<close>: \<^verbatim>\<open>None\<close> and the empty list are falsy.\<close>

definition list_or :: "'a list \<Rightarrow> 'a list \<Rightarrow> 'a list" where
  "list_or xs ys = (if xs \<noteq> [] then xs else ys)"

text \<open>Lines 298 to 319: the pre-commands and the plan.\<close>

definition make_plan ::
  "env \<Rightarrow> host \<Rightarrow> access_point \<Rightarrow> identity_data \<Rightarrow> host list \<Rightarrow> host option \<Rightarrow> string \<Rightarrow>
   string \<Rightarrow> string \<Rightarrow> string \<Rightarrow> string list \<Rightarrow> string \<Rightarrow> installation_tools" where
  "make_plan e h ap idt proxies js task_servers script dest run win download =
     (let chmod_cmd = ''chmod +x '' @ dest @ script;
          pre = (if path_of dest \<noteq> path_of ''/tmp''
                 then [''mkdir -p '' @ dest, download, chmod_cmd]
                 else [download, chmod_cmd])
      in \<lparr>script_file_name = script,
          dest_dir = dest,
          win_commands = win,
          upstream_nodes = list_of_set (str_hash e) (chars_of task_servers),
          jump_server = js,
          pre_commands = pre,
          run_cmd = run,
          plan_host = h,
          plan_ap = ap,
          plan_identity_data = idt,
          plan_proxies = proxies\<rparr>)"

text \<open>\<^verbatim>\<open>aes_cipher.encrypt(f"{host.inner_ip}|{host.bk_cloud_id}|{pipeline_id}|{time.time()}")\<close>\<close>

definition token_of :: "env \<Rightarrow> host \<Rightarrow> string \<Rightarrow> string" where
  "token_of e h pipeline_id =
     encrypt e (inner_ip h @ ''|'' @ str_int (bk_cloud_id h) @ ''|'' @ pipeline_id @ ''|'' @
                time_now e)"

definition gen_commands ::
  "env \<Rightarrow> host \<Rightarrow> string \<Rightarrow> bool \<Rightarrow> identity_data option \<Rightarrow> access_point option \<Rightarrow>
   host list \<Rightarrow> install_channel option \<Rightarrow> error + installation_tools" where
  "gen_commands e h pipeline_id is_uninstall identity_arg ap_arg proxies_arg channel_arg =
     (let ap = or_else ap_arg (host_ap e h);
          idt = or_else identity_arg (host_identity e h);
          install_channel = or_else channel_arg (host_install_channel e h);
          proxies = list_or proxies_arg (host_proxies e h)
      in case fetch_gse_servers e h ap proxies install_channel of
           Inl err \<Rightarrow> Inl err
         | Inr (js, bt_file_servers, data_servers0, data_servers, task_servers,
                package_url, callback_url) \<Rightarrow>
      (case get_agent_config ap (os_type h) of
           Inl err \<Rightarrow> Inl err
         | Inr agent_cfg \<Rightarrow>
      (let params = run_cmd_params_base pipeline_id callback_url package_url
                      (token_of e h pipeline_id) (port_config ap)
                      bt_file_servers data_servers task_servers
       in case check_run_commands params of
            Inl err \<Rightarrow> Inl err
          | Inr u \<Rightarrow>
       (case choose_script_file (const e) h of
            Inl err \<Rightarrow> Inl err
          | Inr script \<Rightarrow>
          (if script = SETUP_PAGENT_PY (const e) then
             (case pagent_branch e h is_uninstall idt ap agent_cfg js package_url
                     script params of
                Inl err \<Rightarrow> Inl err
              | Inr (dest, run, download) \<Rightarrow>
                 Inr (make_plan e h ap idt proxies js task_servers script dest run []
                        download))
           else
             (let dest = suffix_slash e (lower (os_type h)) (temp_path agent_cfg)
              in case direct_branch e h is_uninstall ap agent_cfg package_url script
                        dest params of
                   Inl err \<Rightarrow> Inl err
                 | Inr (run, win, download) \<Rightarrow>
                    Inr (make_plan e h ap idt proxies js task_servers script dest run win
                           download)))))))"

text \<open>\<^verbatim>\<open>batch_gen_commands\<close>: the dictionary comprehension over the identities of the
  hosts (a later entry of the same key replaces an earlier one), then the loop. The
  state of the loop is the result dictionary and the two caches.\<close>

definition host_id_identity_map :: "env \<Rightarrow> host list \<Rightarrow> int \<rightharpoonup> identity_data" where
  "host_id_identity_map e hosts =
     map_of (rev (map (\<lambda>i. (identity_bk_host_id i, i))
       (filter (\<lambda>i. identity_bk_host_id i \<in> set (map bk_host_id hosts)) (identity_objects e))))"

type_synonym batch_state =
  "(int \<rightharpoonup> installation_tools) \<times> (int \<rightharpoonup> host list) \<times> (int option \<rightharpoonup> install_channel)"

fun batch_loop ::
  "env \<Rightarrow> string \<Rightarrow> bool \<Rightarrow> (int \<rightharpoonup> identity_data) \<Rightarrow> host list \<Rightarrow> batch_state \<Rightarrow>
   error + (int \<rightharpoonup> installation_tools)" where
  "batch_loop e pipeline_id is_uninstall identities [] (tools, clouds, channels) = Inr tools"
| "batch_loop e pipeline_id is_uninstall identities (h # hosts) (tools, clouds, channels) =
     (case map_of (ap_id_obj_map e) (ap_id h) of
        None \<Rightarrow> Inl KeyError
      | Some ap \<Rightarrow>
         (let idt = (case identities (bk_host_id h) of None \<Rightarrow> host_identity e h | Some i \<Rightarrow> i);
              clouds' = (case clouds (bk_cloud_id h) of
                           None \<Rightarrow> clouds(bk_cloud_id h \<mapsto> host_proxies e h)
                         | Some ps \<Rightarrow> clouds);
              proxies = (case clouds (bk_cloud_id h) of
                           None \<Rightarrow> host_proxies e h
                         | Some ps \<Rightarrow> ps);
              channels' = (case channels (install_channel_id h) of
                             None \<Rightarrow> channels(install_channel_id h \<mapsto> host_install_channel e h)
                           | Some c \<Rightarrow> channels);
              channel = (case channels (install_channel_id h) of
                           None \<Rightarrow> host_install_channel e h
                         | Some c \<Rightarrow> c)
          in case gen_commands e h pipeline_id is_uninstall (Some idt) (Some ap) proxies
                    (Some channel) of
               Inl err \<Rightarrow> Inl err
             | Inr tool \<Rightarrow>
                batch_loop e pipeline_id is_uninstall identities hosts
                  (tools(bk_host_id h \<mapsto> tool), clouds', channels')))"

definition batch_gen_commands ::
  "env \<Rightarrow> host list \<Rightarrow> string \<Rightarrow> bool \<Rightarrow> error + (int \<rightharpoonup> installation_tools)" where
  "batch_gen_commands e hosts pipeline_id is_uninstall =
     batch_loop e pipeline_id is_uninstall (host_id_identity_map e hosts) hosts
       (Map.empty, Map.empty, Map.empty)"

subsection \<open>What the batch passes to \<open>gen_commands\<close>\<close>

text \<open>The identity of a host in a batch: the bulk-fetched one, else \<^verbatim>\<open>host.identity\<close>.\<close>

definition batch_identity :: "env \<Rightarrow> host list \<Rightarrow> host \<Rightarrow> identity_data" where
  "batch_identity e hosts h =
     (case host_id_identity_map e hosts (bk_host_id h) of
        None \<Rightarrow> host_identity e h | Some i \<Rightarrow> i)"

text \<open>The proxies and the install channel of a host in a batch: those of the first host
  of the batch with the same cloud area, and with the same install channel id.\<close>

definition batch_proxies :: "env \<Rightarrow> host list \<Rightarrow> host \<Rightarrow> host list" where
  "batch_proxies e hosts h =
     (case find (\<lambda>h'. bk_cloud_id h' = bk_cloud_id h) hosts of
        None \<Rightarrow> host_proxies e h | Some h' \<Rightarrow> host_proxies e h')"

definition batch_channel :: "env \<Rightarrow> host list \<Rightarrow> host \<Rightarrow> install_channel" where
  "batch_channel e hosts h =
     (case find (\<lambda>h'. install_channel_id h' = install_channel_id h) hosts of
        None \<Rightarrow> host_install_channel e h | Some h' \<Rightarrow> host_install_channel e h')"

text \<open>The result for one host of a batch: the access point of the host is looked up
  (a missing one is \<^verbatim>\<open>KeyError\<close>), then \<open>gen_commands\<close> runs on the inputs above.\<close>

definition batch_host_result ::
  "env \<Rightarrow> host list \<Rightarrow> string \<Rightarrow> bool \<Rightarrow> host \<Rightarrow> error + installation_tools" where
  "batch_host_result e hosts pipeline_id is_uninstall h =
     (case map_of (ap_id_obj_map e) (ap_id h) of
        None \<Rightarrow> Inl KeyError
      | Some ap \<Rightarrow>
         gen_commands e h pipeline_id is_uninstall (Some (batch_identity e hosts h)) (Some ap)
           (batch_proxies e hosts h) (Some (batch_channel e hosts h)))"

text \<open>The loop without its caches: the results of the hosts are collected in order, and
  the first error ends the loop.\<close>

fun batch_results ::
  "(host \<Rightarrow> error + installation_tools) \<Rightarrow> host list \<Rightarrow> (int \<rightharpoonup> installation_tools) \<Rightarrow>
   error + (int \<rightharpoonup> installation_tools)" where
  "batch_results f [] tools = Inr tools"
| "batch_results f (h # hs) tools =
     (case f h of Inl err \<Rightarrow> Inl err
      | Inr tool \<Rightarrow> batch_results f hs (tools(bk_host_id h \<mapsto> tool)))"

text \<open>The two caches of the loop after the hosts \<open>seen\<close>.\<close>

definition cloud_cache :: "env \<Rightarrow> host list \<Rightarrow> int \<rightharpoonup> host list" where
  "cloud_cache e seen c = map_option (host_proxies e) (find (\<lambda>h'. bk_cloud_id h' = c) seen)"

definition channel_cache :: "env \<Rightarrow> host list \<Rightarrow> int option \<rightharpoonup> install_channel" where
  "channel_cache e seen c =
     map_option (host_install_channel e) (find (\<lambda>h'. install_channel_id h' = c) seen)"

subsection \<open>The server pools of the specification\<close>

text \<open>
  The string of one upstream pool as the specification resolves it (TopologyResolver,
  decision order 1 to 4): with an install channel, the addresses the channel supplies
  for the pool; else for an \<open>AGENT\<close> the inner addresses of the pool of the access
  point; else for a \<open>PROXY\<close> its outer addresses; else (\<open>PAGENT\<close>) the deduplicated inner
  addresses of the proxies. The addresses are comma-joined. A pool that the channel does
  not supply is a missing record; it is the empty list here.
\<close>

definition spec_pool_servers ::
  "env \<Rightarrow> host \<Rightarrow> host list \<Rightarrow> string list option \<Rightarrow> server list \<Rightarrow> string" where
  "spec_pool_servers e h proxies channel_pool ap_pool =
     join '',''
       (if has_install_channel h then (case channel_pool of None \<Rightarrow> [] | Some xs \<Rightarrow> xs)
        else if node_type h = AGENT then map server_inner_ip ap_pool
        else if node_type h = PROXY then map server_outer_ip ap_pool
        else list_of_set (str_hash e) (map inner_ip proxies))"

text \<open>The parameters \<open>a\<close> and \<open>k\<close> stand next to each other, in this order, in the
  parameter list \<open>xs\<close>.\<close>

definition adjacent_in :: "string \<Rightarrow> string \<Rightarrow> string list \<Rightarrow> bool" where
  "adjacent_in a k xs = (\<exists>us vs. xs = us @ a # k # vs)"

subsection \<open>An example installation\<close>

text \<open>A configuration and some hosts on which the functions are run. The constants
  follow the naming of the OS tags (\<^verbatim>\<open>LINUX\<close>, \<^verbatim>\<open>linux\<close>); \<open>example_suffix_slash\<close> appends
  the separator of the OS when the path does not end with it.\<close>

definition example_constants :: constants where
  "example_constants =
     \<lparr>OsType_LINUX = ''LINUX'', OsType_WINDOWS = ''WINDOWS'',
      OS_WINDOWS = ''windows'', OS_AIX = ''aix'',
      SUFFIX_MAP = [(''windows'', ''bat''), (''linux'', ''sh''), (''aix'', ''ksh'')],
      SCRIPT_FILE_NAME_MAP =
        [(''LINUX'', ''setup_agent.sh''), (''WINDOWS'', ''setup_agent.bat''),
         (''AIX'', ''setup_agent.ksh'')],
      SETUP_PAGENT_PY = ''setup_pagent.py'', GSECTL_BAT = ''gsectl.bat''\<rparr>"

definition example_settings :: settings where
  "example_settings =
     \<lparr>BK_NODEMAN_NGINX_DOWNLOAD_PORT = 17980,
      BK_NODEMAN_NGINX_PROXY_PASS_PORT = 17981,
      BKAPP_NODEMAN_CALLBACK_URL = ''http://example.com/backend'',
      BKAPP_NODEMAN_OUTER_CALLBACK_URL = ''http://outer.example.com/backend'',
      DOWNLOAD_PATH = ''/data/bkee/public/bknodeman/download''\<rparr>"

definition example_suffix_slash :: "string \<Rightarrow> string \<Rightarrow> string" where
  "example_suffix_slash os path =
     (let sep = (if lower os = ''windows'' then CHR 0x5C else CHR ''/'')
      in if path \<noteq> [] \<and> last path = sep then path else path @ [sep])"

definition example_ap :: access_point where
  "example_ap =
     \<lparr>btfileserver = [\<lparr>server_inner_ip = ''10.1.1.1'', server_outer_ip = ''20.1.1.1''\<rparr>],
      dataserver = [\<lparr>server_inner_ip = ''10.1.1.2'', server_outer_ip = ''20.1.1.2''\<rparr>],
      taskserver = [\<lparr>server_inner_ip = ''10.1.1.3'', server_outer_ip = ''20.1.1.3''\<rparr>],
      package_inner_url = ''http://10.1.1.9/download'',
      package_outer_url = ''http://20.1.1.9/download'',
      outer_callback_url = [],
      port_config = [(''io_port'', 1), (''file_svr_port'', 2)],
      agent_config_map =
        [(''LINUX'', \<lparr>setup_path = ''/usr/local/gse'', temp_path = ''/tmp''\<rparr>),
         (''WINDOWS'', \<lparr>setup_path = ''C:/gse'', temp_path = ''C:/tmp''\<rparr>)]\<rparr>"

definition example_identity :: identity_data where
  "example_identity =
     \<lparr>identity_bk_host_id = 0, auth_type = PASSWORD, key = [], password = ''secret'',
      account = ''root'', port = 22\<rparr>"

definition example_host :: "int \<Rightarrow> string \<Rightarrow> string \<Rightarrow> node_type \<Rightarrow> int option \<Rightarrow> host" where
  "example_host i ip os role channel =
     \<lparr>bk_host_id = i, bk_cloud_id = 1, inner_ip = ip, login_ip = [], os_type = os,
      node_type = role, install_channel_id = channel, is_manual = False, ap_id = 1\<rparr>"

text \<open>Three proxies of the cloud area, two of them with the same inner IP.\<close>

definition example_proxies :: "host list" where
  "example_proxies =
     [example_host 101 ''10.0.0.1'' ''LINUX'' PROXY None,
      example_host 102 ''10.0.0.1'' ''LINUX'' PROXY None,
      example_host 103 ''10.0.0.2'' ''LINUX'' PROXY None]"

definition example_channel :: install_channel where
  "example_channel =
     (Some (example_host 201 ''10.9.9.9'' ''LINUX'' PROXY None),
      \<lparr>us_btfileserver = Some [''30.1.1.1''], us_dataserver = Some [''30.1.1.2''],
       us_taskserver = Some [''30.1.1.3''], agent_download_proxy = None,
       channel_proxy_address = None\<rparr>)"

definition example_env :: env where
  "example_env =
     \<lparr>settings = example_settings,
      const = example_constants,
      suffix_slash = example_suffix_slash,
      encrypt = (\<lambda>s. ''token''),
      time_now = ''1700000000.0'',
      str_hash = (\<lambda>s. 0),
      is_alive = (\<lambda>h. True),
      random_index = (\<lambda>hs. 0),
      host_ap = (\<lambda>h. example_ap),
      host_identity = (\<lambda>h. example_identity),
      host_install_channel = (\<lambda>h. example_channel),
      host_proxies = (\<lambda>h. example_proxies),
      ap_id_obj_map = [(1, example_ap)],
      identity_objects = []\<rparr>"


text \<open>The example when no proxy is alive.\<close>

definition example_env_no_proxy :: env where
  "example_env_no_proxy = example_env\<lparr>is_alive := (\<lambda>h. False)\<rparr>"

text \<open>The example with another random draw, and with another order of sets.\<close>

definition example_env_draw :: "nat \<Rightarrow> env" where
  "example_env_draw n = example_env\<lparr>random_index := (\<lambda>hs. n)\<rparr>"

definition example_env_order :: env where
  "example_env_order =
     example_env\<lparr>str_hash := (\<lambda>s. if s = ''10.0.0.2'' then 0 else 1)\<rparr>"

section \<open>Properties\<close>

subsection \<open>Evaluation on the example, and inversion of the functions\<close>

lemma lower_WINDOWS: "lower ''WINDOWS'' = ''windows''"
  by (simp add: lower_def lower_char_def)

lemma lower_AIX: "lower ''AIX'' = ''aix''"
  by (simp add: lower_def lower_char_def)

lemma lower_LINUX: "lower ''LINUX'' = ''linux''"
  by (simp add: lower_def lower_char_def)

lemma lower_lower_case: "lower ''windows'' = ''windows''" "lower ''linux'' = ''linux''"
  by (simp_all add: lower_def lower_char_def)

lemma str_int_examples:
  "str_int 1 = ''1''" "str_int 2 = ''2''" "str_int 22 = ''22''"
  "str_int 17980 = ''17980''" "str_int 17981 = ''17981''"
  by (simp_all add: str_int_def str_nat.simps)

lemmas example_defs =
  example_env_def example_settings_def example_constants_def example_ap_def
  example_identity_def example_host_def example_proxies_def example_channel_def
  example_suffix_slash_def lower_WINDOWS lower_AIX lower_LINUX lower_lower_case
  str_int_examples

lemmas plan_defs =
  gen_commands_def fetch_gse_servers_def get_agent_config_def get_random_alive_proxy_def
  gen_nginx_download_url_def choose_script_file_def script_file_name_of_def
  format_run_cmd_by_os_type_def run_cmd_params_base_def channel_params_def
  pagent_branch_def direct_branch_def make_plan_def token_of_def
  has_install_channel_def list_or_def str_or_def str_opt_int_def
  re_match_callback_def match_dot_plus_backend_end_def dot_plus_def strip_suffix_def
  path_of_def list_of_set_def chars_of_def Let_def

text \<open>The jump server of \<open>fetch_gse_servers\<close>, and its two data-server slots.\<close>

lemma fetch_gse_servers_jump_server:
  assumes "fetch_gse_servers e h ap proxies channel = Inr (js, bt, d0, d, t, pkg, cb)"
  shows "(js \<noteq> None) = (has_install_channel h \<or> node_type h = PAGENT)"
  using assms
  by (cases "node_type h")
     (auto simp: fetch_gse_servers_def Let_def
           split: if_splits option.splits prod.splits sum.splits)

text \<open>What a returned plan says about the steps of \<open>gen_commands\<close>.\<close>

lemma gen_commands_Inr:
  assumes "gen_commands e h pid un ia aa pa ca = Inr p"
  shows "\<exists>js bt d0 d t pkg cb cfg script dest run win dl.
           fetch_gse_servers e h (or_else aa (host_ap e h)) (list_or pa (host_proxies e h))
             (or_else ca (host_install_channel e h)) = Inr (js, bt, d0, d, t, pkg, cb) \<and>
           get_agent_config (or_else aa (host_ap e h)) (os_type h) = Inr cfg \<and>
           check_run_commands
             (run_cmd_params_base pid cb pkg (token_of e h pid)
                (port_config (or_else aa (host_ap e h))) bt d t) = Inr () \<and>
           choose_script_file (const e) h = Inr script \<and>
           (if script = SETUP_PAGENT_PY (const e)
            then pagent_branch e h un (or_else ia (host_identity e h))
                   (or_else aa (host_ap e h)) cfg js pkg script
                   (run_cmd_params_base pid cb pkg (token_of e h pid)
                      (port_config (or_else aa (host_ap e h))) bt d t) = Inr (dest, run, dl) \<and>
                 win = []
            else dest = suffix_slash e (lower (os_type h)) (temp_path cfg) \<and>
                 direct_branch e h un (or_else aa (host_ap e h)) cfg pkg script dest
                   (run_cmd_params_base pid cb pkg (token_of e h pid)
                      (port_config (or_else aa (host_ap e h))) bt d t) = Inr (run, win, dl)) \<and>
           p = make_plan e h (or_else aa (host_ap e h)) (or_else ia (host_identity e h))
                 (list_or pa (host_proxies e h)) js t script dest run win dl"
  using assms unfolding gen_commands_def Let_def
  by (auto split: sum.splits prod.splits if_splits)

lemma make_plan_fields:
  "script_file_name (make_plan e h ap idt proxies js t script dest run win dl) = script"
  "dest_dir (make_plan e h ap idt proxies js t script dest run win dl) = dest"
  "win_commands (make_plan e h ap idt proxies js t script dest run win dl) = win"
  "upstream_nodes (make_plan e h ap idt proxies js t script dest run win dl) =
     list_of_set (str_hash e) (chars_of t)"
  "jump_server (make_plan e h ap idt proxies js t script dest run win dl) = js"
  "run_cmd (make_plan e h ap idt proxies js t script dest run win dl) = run"
  "plan_host (make_plan e h ap idt proxies js t script dest run win dl) = h"
  "plan_ap (make_plan e h ap idt proxies js t script dest run win dl) = ap"
  "plan_identity_data (make_plan e h ap idt proxies js t script dest run win dl) = idt"
  "plan_proxies (make_plan e h ap idt proxies js t script dest run win dl) = proxies"
  by (simp_all add: make_plan_def Let_def)








text \<open>The Windows commands of the direct branch.\<close>

lemma direct_branch_win:
  assumes "direct_branch e h un ap cfg pkg script dest params = Inr (run, win, dl)"
  shows "win = (if os_type h = OsType_WINDOWS (const e)
                then [''del /q /s /f '' @ dest @ script @ '' '' @ dest @ GSECTL_BAT (const e),
                      dest @ ''curl.exe '' @ package_inner_url ap @ ''/'' @ script @
                        '' -o '' @ dest @ script @ '' -sSf'',
                      run]
                else [])"
  using assms unfolding direct_branch_def Let_def
  by (auto split: sum.splits)

text \<open>The example hosts get a plan.\<close>

lemma example_pagent_plan:
  "\<exists>p. gen_commands example_env (example_host 3 ''10.2.2.4'' ''LINUX'' PAGENT None)
          ''p1'' False None None [] None = Inr p"
  by (simp add: plan_defs example_defs)

lemma example_agent_plan:
  "\<exists>p. gen_commands example_env (example_host 1 ''10.2.2.2'' ''LINUX'' AGENT None)
          ''p1'' False None None [] None = Inr p"
  by (simp add: plan_defs example_defs)

lemma example_windows_agent_plan:
  "\<exists>p. gen_commands example_env (example_host 2 ''10.2.2.3'' ''WINDOWS'' AGENT None)
          ''p1'' False None None [] None = Inr p"
  by (simp add: plan_defs example_defs)

subsection \<open>Script selection\<close>

text \<open>
  Claim C8. The script is chosen from the role, the presence of an install channel and
  the OS tag alone, in this order: a \<open>PROXY\<close> host gets the proxy script; otherwise a
  \<open>PAGENT\<close> host or a host with an install channel gets the relay script; every other
  host gets the entry of its OS tag in \<open>SCRIPT_FILE_NAME_MAP\<close>. Two hosts that agree on
  role, channel presence and OS tag get the same script.
\<close>

theorem choose_script_file_selection:
  "(node_type h = PROXY \<longrightarrow> choose_script_file c h = Inr ''setup_proxy.sh'') \<and>
   (node_type h \<noteq> PROXY \<and> (node_type h = PAGENT \<or> has_install_channel h) \<longrightarrow>
      choose_script_file c h = Inr (SETUP_PAGENT_PY c)) \<and>
   (node_type h = AGENT \<and> \<not> has_install_channel h \<longrightarrow>
      choose_script_file c h =
        (case map_of (SCRIPT_FILE_NAME_MAP c) (os_type h) of
           None \<Rightarrow> Inl KeyError | Some f \<Rightarrow> Inr f)) \<and>
   (node_type h = node_type h' \<and> has_install_channel h = has_install_channel h' \<and>
    os_type h = os_type h' \<longrightarrow> choose_script_file c h = choose_script_file c h')"
  by (simp add: choose_script_file_def script_file_name_of_def)

theorem choose_script_file_selection_witness:
  "choose_script_file example_constants (example_host 1 ''10.2.2.6'' ''LINUX'' PROXY (Some 7))
     = Inr ''setup_proxy.sh'' \<and>
   choose_script_file example_constants (example_host 2 ''10.2.2.7'' ''WINDOWS'' AGENT (Some 7))
     = Inr ''setup_pagent.py'' \<and>
   choose_script_file example_constants (example_host 3 ''10.2.2.8'' ''WINDOWS'' AGENT None)
     = Inr ''setup_agent.bat'' \<and>
   choose_script_file example_constants (example_host 4 ''10.2.2.9'' ''WINDOWS'' AGENT None)
     = choose_script_file example_constants (example_host 3 ''10.2.2.8'' ''WINDOWS'' AGENT None)"
proof -
  let ?c = example_constants
  let ?h1 = "example_host 1 ''10.2.2.6'' ''LINUX'' PROXY (Some 7)"
  let ?h2 = "example_host 2 ''10.2.2.7'' ''WINDOWS'' AGENT (Some 7)"
  let ?h3 = "example_host 3 ''10.2.2.8'' ''WINDOWS'' AGENT None"
  let ?h4 = "example_host 4 ''10.2.2.9'' ''WINDOWS'' AGENT None"
  have a: "choose_script_file ?c ?h1 = Inr ''setup_proxy.sh''"
    using choose_script_file_selection [where h = ?h1 and c = ?c]
    by (simp add: example_host_def)
  have b: "choose_script_file ?c ?h2 = Inr ''setup_pagent.py''"
    using choose_script_file_selection [where h = ?h2 and c = ?c]
    by (simp add: example_host_def example_constants_def has_install_channel_def)
  have c: "choose_script_file ?c ?h3 = Inr ''setup_agent.bat''"
    using choose_script_file_selection [where h = ?h3 and c = ?c]
    by (simp add: example_host_def example_constants_def has_install_channel_def)
  have d: "choose_script_file ?c ?h4 = choose_script_file ?c ?h3"
    by (rule choose_script_file_selection
          [THEN conjunct2, THEN conjunct2, THEN conjunct2, rule_format])
       (simp add: example_host_def has_install_channel_def)
  from a b c d show ?thesis by blast
qed

subsection \<open>The shell of an OS\<close>

text \<open>A parameter of a list is a part of the joined command; the relay branch has the
  parameter \<^verbatim>\<open>-HS\<close> with the shell of the OS of the host.\<close>

lemma join_member:
  "x \<in> set xs \<Longrightarrow> \<exists>pre post. join sep xs = pre @ x @ post"
proof (induction sep xs rule: join.induct)
  case (1 sep)
  then show ?case by simp
next
  case (2 sep y)
  then have "join sep [y] = [] @ x @ []" by simp
  then show ?case by blast
next
  case (3 sep y z zs)
  show ?case
  proof (cases "x = y")
    case True
    then have "join sep (y # z # zs) = [] @ x @ (sep @ join sep (z # zs))" by simp
    then show ?thesis by blast
  next
    case False
    with 3 obtain pre post where "join sep (z # zs) = pre @ x @ post" by auto
    then have "join sep (y # z # zs) = (y @ sep @ pre) @ x @ post" by simp
    then show ?thesis by blast
  qed
qed

lemma pagent_branch_shell:
  assumes "pagent_branch e h un idt ap cfg js pkg script params = Inr (dest, run, dl)"
  shows "\<exists>L shell. run = join '' '' L \<and>
           format_run_cmd_by_os_type (const e) (os_type h) None = Inr shell \<and>
           ''-HS '' @ [CHR 0x27] @ shell @ [CHR 0x27] \<in> set L"
  using assms unfolding pagent_branch_def Let_def
  by (auto split: sum.splits option.splits if_splits)

text \<open>
  Claim C10. Let the suffix table hold the OS tag (lower-cased) and the AIX tag, and let
  no other tag share the suffix of AIX. Without a command string
  \<open>format_run_cmd_by_os_type\<close> returns the bare shell: the AIX suffix for AIX, \<open>bash\<close>
  for every other OS, Windows included. With a non-empty command string it returns the
  command as it is for Windows, and \<open>nohup <shell> <command> &\<close> otherwise. In every
  plan of the relay script, the run command has the parameter \<^verbatim>\<open>-HS '<shell>'\<close> with
  that bare shell; it is \<open>bash\<close> for a Windows host.
\<close>

theorem format_run_cmd_by_os_type_shell:
  assumes "map_of (SUFFIX_MAP c) (OS_AIX c) = Some aix_shell"
      and "map_of (SUFFIX_MAP c) (lower os) = Some suffix"
      and "lower os \<noteq> OS_AIX c \<longrightarrow> suffix \<noteq> aix_shell"
  shows "format_run_cmd_by_os_type c os None =
           Inr (if lower os = OS_AIX c then aix_shell else ''bash'') \<and>
         (cmd \<noteq> [] \<longrightarrow>
            format_run_cmd_by_os_type c os (Some cmd) =
              Inr (if lower os = OS_WINDOWS c then cmd
                   else ''nohup '' @ (if lower os = OS_AIX c then aix_shell else ''bash'') @
                        '' '' @ cmd @ '' &'')) \<and>
         (\<forall>e h pid un ia aa pa ca p.
            const e = c \<and> os_type h = os \<and>
            gen_commands e h pid un ia aa pa ca = Inr p \<and>
            script_file_name p = SETUP_PAGENT_PY c \<longrightarrow>
            (\<exists>pre post.
               run_cmd p =
                 pre @
                 (''-HS '' @ [CHR 0x27] @
                  (if lower os = OS_AIX c then aix_shell else ''bash'') @ [CHR 0x27]) @
                 post))"
proof -
  have bare: "format_run_cmd_by_os_type c os None =
           Inr (if lower os = OS_AIX c then aix_shell else ''bash'')"
    using assms by (auto simp: format_run_cmd_by_os_type_def Let_def)
  have cmd: "cmd \<noteq> [] \<longrightarrow>
            format_run_cmd_by_os_type c os (Some cmd) =
              Inr (if lower os = OS_WINDOWS c then cmd
                   else ''nohup '' @ (if lower os = OS_AIX c then aix_shell else ''bash'') @
                        '' '' @ cmd @ '' &'')"
    using assms by (auto simp: format_run_cmd_by_os_type_def Let_def)
  have hint: "\<exists>pre post.
               run_cmd p =
                 pre @
                 (''-HS '' @ [CHR 0x27] @
                  (if lower os = OS_AIX c then aix_shell else ''bash'') @ [CHR 0x27]) @
                 post"
    if a: "const e = c \<and> os_type h = os \<and>
           gen_commands e h pid un ia aa pa ca = Inr p \<and>
           script_file_name p = SETUP_PAGENT_PY c"
    for e :: env and h pid un ia aa pa ca p
  proof -
    from a have g: "gen_commands e h pid un ia aa pa ca = Inr p" by (elim conjE)
    from gen_commands_Inr [OF g] obtain js bt d0 d t pkg cb and cfg :: agent_config
        and script dest run win dl
      where br: "if script = SETUP_PAGENT_PY (const e)
            then pagent_branch e h un (or_else ia (host_identity e h))
                   (or_else aa (host_ap e h)) cfg js pkg script
                   (run_cmd_params_base pid cb pkg (token_of e h pid)
                      (port_config (or_else aa (host_ap e h))) bt d t) = Inr (dest, run, dl) \<and>
                 win = []
            else dest = suffix_slash e (lower (os_type h)) (temp_path cfg) \<and>
                 direct_branch e h un (or_else aa (host_ap e h)) cfg pkg script dest
                   (run_cmd_params_base pid cb pkg (token_of e h pid)
                      (port_config (or_else aa (host_ap e h))) bt d t) = Inr (run, win, dl)"
        and p: "p = make_plan e h (or_else aa (host_ap e h)) (or_else ia (host_identity e h))
                 (list_or pa (host_proxies e h)) js t script dest run win dl"
      by blast
    from p have sp: "script_file_name p = script" and rp: "run_cmd p = run"
      by (simp_all add: make_plan_fields)
    from a sp have s: "script = SETUP_PAGENT_PY (const e)" by (elim conjE) simp
    note br [unfolded if_P [OF s]]
    then have "pagent_branch e h un (or_else ia (host_identity e h))
                   (or_else aa (host_ap e h)) cfg js pkg script
                   (run_cmd_params_base pid cb pkg (token_of e h pid)
                      (port_config (or_else aa (host_ap e h))) bt d t) = Inr (dest, run, dl)"
      by (rule conjunct1)
    from pagent_branch_shell [OF this] obtain L shell where L: "run = join '' '' L"
        and f: "format_run_cmd_by_os_type (const e) (os_type h) None = Inr shell"
        and m: "''-HS '' @ [CHR 0x27] @ shell @ [CHR 0x27] \<in> set L" by blast
    from a f bare have "shell = (if lower os = OS_AIX c then aix_shell else ''bash'')"
      by (elim conjE) simp
    with join_member [OF m, of "'' ''"] L rp show ?thesis by simp
  qed
  from bare cmd hint show ?thesis by blast
qed

theorem format_run_cmd_by_os_type_shell_witness:
  "format_run_cmd_by_os_type example_constants ''WINDOWS'' None = Inr ''bash'' \<and>
   format_run_cmd_by_os_type example_constants ''AIX'' None = Inr ''ksh'' \<and>
   format_run_cmd_by_os_type example_constants ''WINDOWS'' (Some ''setup.bat -s p1'')
     = Inr ''setup.bat -s p1'' \<and>
   format_run_cmd_by_os_type example_constants ''LINUX'' (Some ''/tmp/setup_agent.sh -s p1'')
     = Inr ''nohup bash /tmp/setup_agent.sh -s p1 &'' \<and>
   (\<exists>p pre post.
      gen_commands example_env (example_host 4 ''10.2.2.5'' ''WINDOWS'' PAGENT None)
        ''p1'' False None None [] None = Inr p \<and>
      run_cmd p = pre @ (''-HS '' @ [CHR 0x27] @ ''bash'' @ [CHR 0x27]) @ post)"
proof -
  let ?c = example_constants
  note t = format_run_cmd_by_os_type_shell [where c = ?c and os = "''WINDOWS''"
        and aix_shell = "''ksh''" and suffix = "''bat''" and cmd = "''setup.bat -s p1''"]
  have hyp: "map_of (SUFFIX_MAP ?c) (OS_AIX ?c) = Some ''ksh''"
            "map_of (SUFFIX_MAP ?c) (lower ''WINDOWS'') = Some ''bat''"
            "lower ''WINDOWS'' \<noteq> OS_AIX ?c \<longrightarrow> ''bat'' \<noteq> ''ksh''"
    by (simp_all add: example_constants_def lower_WINDOWS)
  have w: "format_run_cmd_by_os_type ?c ''WINDOWS'' None = Inr ''bash'' \<and>
           format_run_cmd_by_os_type ?c ''WINDOWS'' (Some ''setup.bat -s p1'')
             = Inr ''setup.bat -s p1''"
    using t [OF hyp, THEN conjunct1] t [OF hyp, THEN conjunct2, THEN conjunct1]
    by (simp add: example_constants_def lower_WINDOWS)
  have a: "format_run_cmd_by_os_type ?c ''AIX'' None = Inr ''ksh''"
    using format_run_cmd_by_os_type_shell [where c = ?c and os = "''AIX''"
        and aix_shell = "''ksh''" and suffix = "''ksh''" and cmd = "''x''", THEN conjunct1]
    by (simp add: example_constants_def lower_AIX)
  have l: "format_run_cmd_by_os_type ?c ''LINUX'' (Some ''/tmp/setup_agent.sh -s p1'')
             = Inr ''nohup bash /tmp/setup_agent.sh -s p1 &''"
    using format_run_cmd_by_os_type_shell [where c = ?c and os = "''LINUX''"
        and aix_shell = "''ksh''" and suffix = "''sh''" and cmd = "''/tmp/setup_agent.sh -s p1''",
        THEN conjunct2, THEN conjunct1]
    by (simp add: example_constants_def lower_LINUX)
  have "\<exists>p. gen_commands example_env (example_host 4 ''10.2.2.5'' ''WINDOWS'' PAGENT None)
          ''p1'' False None None [] None = Inr p"
    by (simp add: plan_defs example_defs)
  then obtain p
    where p: "gen_commands example_env (example_host 4 ''10.2.2.5'' ''WINDOWS'' PAGENT None)
                ''p1'' False None None [] None = Inr p" by blast
  then have sp: "script_file_name p = SETUP_PAGENT_PY ?c"
    by (auto simp add: plan_defs example_defs)
  have "const example_env = ?c \<and>
        os_type (example_host 4 ''10.2.2.5'' ''WINDOWS'' PAGENT None) = ''WINDOWS'' \<and>
        gen_commands example_env (example_host 4 ''10.2.2.5'' ''WINDOWS'' PAGENT None)
          ''p1'' False None None [] None = Inr p \<and>
        script_file_name p = SETUP_PAGENT_PY ?c"
    using p sp by (simp add: example_env_def example_host_def)
  from t [OF hyp, THEN conjunct2, THEN conjunct2, rule_format, OF this]
  have "\<exists>pre post. run_cmd p = pre @ (''-HS '' @ [CHR 0x27] @ ''bash'' @ [CHR 0x27]) @ post"
    by (simp add: example_constants_def lower_WINDOWS)
  with p have h: "\<exists>p pre post.
      gen_commands example_env (example_host 4 ''10.2.2.5'' ''WINDOWS'' PAGENT None)
        ''p1'' False None None [] None = Inr p \<and>
      run_cmd p = pre @ (''-HS '' @ [CHR 0x27] @ ''bash'' @ [CHR 0x27]) @ post" by blast
  from w a l h show ?thesis by blast
qed

subsection \<open>The jump server\<close>

text \<open>
  Claim C6. In every plan that \<open>gen_commands\<close> returns, the jump server is present if
  and only if the host has an install channel or its role is \<open>PAGENT\<close>; so it is absent
  for \<open>AGENT\<close> and \<open>PROXY\<close> hosts without an install channel.
\<close>

theorem gen_commands_jump_server:
  assumes "gen_commands e h pid un ia aa pa ca = Inr p"
  shows "(jump_server p \<noteq> None) = (has_install_channel h \<or> node_type h = PAGENT)"
proof -
  from gen_commands_Inr [OF assms] obtain js bt d0 d t pkg cb and cfg :: agent_config
      and script dest run win dl
    where f: "fetch_gse_servers e h (or_else aa (host_ap e h)) (list_or pa (host_proxies e h))
             (or_else ca (host_install_channel e h)) = Inr (js, bt, d0, d, t, pkg, cb)"
      and p: "p = make_plan e h (or_else aa (host_ap e h)) (or_else ia (host_identity e h))
                 (list_or pa (host_proxies e h)) js t script dest run win dl"
    by blast
  from p have "jump_server p = js" by (simp add: make_plan_def Let_def)
  with fetch_gse_servers_jump_server [OF f] show ?thesis by simp
qed

theorem gen_commands_jump_server_witness:
  "(\<exists>p. gen_commands example_env (example_host 3 ''10.2.2.4'' ''LINUX'' PAGENT None)
          ''p1'' False None None [] None = Inr p \<and> jump_server p \<noteq> None) \<and>
   (\<exists>p. gen_commands example_env (example_host 1 ''10.2.2.2'' ''LINUX'' AGENT None)
          ''p1'' False None None [] None = Inr p \<and> jump_server p = None)"
proof -
  from example_pagent_plan obtain p
    where p: "gen_commands example_env (example_host 3 ''10.2.2.4'' ''LINUX'' PAGENT None)
                ''p1'' False None None [] None = Inr p" by blast
  from example_agent_plan obtain q
    where q: "gen_commands example_env (example_host 1 ''10.2.2.2'' ''LINUX'' AGENT None)
                ''p1'' False None None [] None = Inr q" by blast
  have "jump_server p \<noteq> None"
    using gen_commands_jump_server [OF p] by (simp add: example_host_def)
  moreover have "jump_server q = None"
    using gen_commands_jump_server [OF q]
    by (simp add: example_host_def has_install_channel_def)
  ultimately show ?thesis using p q by blast
qed

subsection \<open>The address family of the servers\<close>

text \<open>
  Claim C7, as stated, fails for a \<open>PROXY\<close> host with an install channel: the channel
  is tested first, and the servers are then the ones of the channel, not the outer
  addresses of the access point.
\<close>

theorem fetch_gse_servers_address_family_counterexample:
  "node_type (example_host 5 ''10.2.2.6'' ''LINUX'' PROXY (Some 7)) = PROXY \<and>
   fetch_gse_servers example_env (example_host 5 ''10.2.2.6'' ''LINUX'' PROXY (Some 7))
       example_ap example_proxies example_channel =
     Inr (Some (example_host 201 ''10.9.9.9'' ''LINUX'' PROXY None),
          ''30.1.1.1'', ''30.1.1.2'', ''30.1.1.2'', ''30.1.1.3'',
          ''http://10.9.9.9:17980/'', ''http://outer.example.com/backend'') \<and>
   join '','' (map server_outer_ip (btfileserver example_ap)) = ''20.1.1.1'' \<and>
   join '','' (map server_outer_ip (dataserver example_ap)) = ''20.1.1.2'' \<and>
   join '','' (map server_outer_ip (taskserver example_ap)) = ''20.1.1.3''"
  by (simp add: fetch_gse_servers_def has_install_channel_def gen_nginx_download_url_def
        str_or_def Let_def example_defs)

text \<open>
  Claim C7, amended. For a host with no install channel: when its role is \<open>AGENT\<close> the
  three server strings are the comma-joins of the \<open>inner_ip\<close> fields of the pools of
  the access point, and when its role is \<open>PROXY\<close> they are the comma-joins of the
  \<open>outer_ip\<close> fields.
\<close>

theorem fetch_gse_servers_address_family:
  assumes "\<not> has_install_channel h"
  shows "(node_type h = AGENT \<longrightarrow>
            fetch_gse_servers e h ap proxies channel =
              Inr (None,
                   join '','' (map server_inner_ip (btfileserver ap)),
                   join '','' (map server_inner_ip (dataserver ap)),
                   join '','' (map server_inner_ip (dataserver ap)),
                   join '','' (map server_inner_ip (taskserver ap)),
                   package_inner_url ap,
                   BKAPP_NODEMAN_CALLBACK_URL (settings e))) \<and>
         (node_type h = PROXY \<longrightarrow>
            fetch_gse_servers e h ap proxies channel =
              Inr (None,
                   join '','' (map server_outer_ip (btfileserver ap)),
                   join '','' (map server_outer_ip (dataserver ap)),
                   join '','' (map server_outer_ip (dataserver ap)),
                   join '','' (map server_outer_ip (taskserver ap)),
                   package_outer_url ap,
                   str_or (outer_callback_url ap)
                     (BKAPP_NODEMAN_OUTER_CALLBACK_URL (settings e))))"
  using assms by (simp add: fetch_gse_servers_def Let_def)

theorem fetch_gse_servers_address_family_witness:
  "fetch_gse_servers example_env (example_host 1 ''10.2.2.2'' ''LINUX'' AGENT None)
       example_ap example_proxies example_channel =
     Inr (None, ''10.1.1.1'', ''10.1.1.2'', ''10.1.1.2'', ''10.1.1.3'',
          ''http://10.1.1.9/download'', ''http://example.com/backend'') \<and>
   fetch_gse_servers example_env (example_host 6 ''10.2.2.7'' ''LINUX'' PROXY None)
       example_ap example_proxies example_channel =
     Inr (None, ''20.1.1.1'', ''20.1.1.2'', ''20.1.1.2'', ''20.1.1.3'',
          ''http://20.1.1.9/download'', ''http://outer.example.com/backend'')"
proof -
  have a: "\<not> has_install_channel (example_host 1 ''10.2.2.2'' ''LINUX'' AGENT None)"
    by (simp add: has_install_channel_def example_host_def)
  have p: "\<not> has_install_channel (example_host 6 ''10.2.2.7'' ''LINUX'' PROXY None)"
    by (simp add: has_install_channel_def example_host_def)
  show ?thesis
    using fetch_gse_servers_address_family [OF a, where e = example_env and ap = example_ap
            and proxies = example_proxies and channel = example_channel]
          fetch_gse_servers_address_family [OF p, where e = example_env and ap = example_ap
            and proxies = example_proxies and channel = example_channel]
    by (simp add: example_host_def example_ap_def example_env_def example_settings_def
          str_or_def)
qed

subsection \<open>Validation of the callback URL\<close>



subsection \<open>The Windows commands\<close>

text \<open>
  Claim C9. In every plan of a Windows host that takes the direct branch (the script is
  not the relay script), \<open>win_commands\<close> is the list of exactly three commands: the
  removal of the previous script and of the batch file, the download of the script with
  \<^verbatim>\<open>curl.exe\<close>, and the run command. For a host that is not a Windows host, and in the
  relay branch, \<open>win_commands\<close> is empty.
\<close>

theorem gen_commands_win_commands:
  assumes "gen_commands e h pid un ia aa pa ca = Inr p"
  shows "(os_type h = OsType_WINDOWS (const e) \<and>
          script_file_name p \<noteq> SETUP_PAGENT_PY (const e) \<longrightarrow>
            win_commands p =
              [''del /q /s /f '' @ dest_dir p @ script_file_name p @ '' '' @ dest_dir p @
                 GSECTL_BAT (const e),
               dest_dir p @ ''curl.exe '' @ package_inner_url (plan_ap p) @ ''/'' @
                 script_file_name p @ '' -o '' @ dest_dir p @ script_file_name p @ '' -sSf'',
               run_cmd p]) \<and>
         (os_type h \<noteq> OsType_WINDOWS (const e) \<longrightarrow> win_commands p = []) \<and>
         (script_file_name p = SETUP_PAGENT_PY (const e) \<longrightarrow> win_commands p = [])"
proof -
  from gen_commands_Inr [OF assms] obtain js bt d0 d t pkg cb and cfg :: agent_config
      and script dest run win dl
    where br: "if script = SETUP_PAGENT_PY (const e)
            then pagent_branch e h un (or_else ia (host_identity e h))
                   (or_else aa (host_ap e h)) cfg js pkg script
                   (run_cmd_params_base pid cb pkg (token_of e h pid)
                      (port_config (or_else aa (host_ap e h))) bt d t) = Inr (dest, run, dl) \<and>
                 win = []
            else dest = suffix_slash e (lower (os_type h)) (temp_path cfg) \<and>
                 direct_branch e h un (or_else aa (host_ap e h)) cfg pkg script dest
                   (run_cmd_params_base pid cb pkg (token_of e h pid)
                      (port_config (or_else aa (host_ap e h))) bt d t) = Inr (run, win, dl)"
      and p: "p = make_plan e h (or_else aa (host_ap e h)) (or_else ia (host_identity e h))
                 (list_or pa (host_proxies e h)) js t script dest run win dl"
    by blast
  show ?thesis
  proof (cases "script = SETUP_PAGENT_PY (const e)")
    case True
    with br p show ?thesis by (simp add: make_plan_fields)
  next
    case False
    with br have "direct_branch e h un (or_else aa (host_ap e h)) cfg pkg script dest
                   (run_cmd_params_base pid cb pkg (token_of e h pid)
                      (port_config (or_else aa (host_ap e h))) bt d t) = Inr (run, win, dl)"
      by auto
    from direct_branch_win [OF this] False p show ?thesis
      by (simp add: make_plan_fields)
  qed
qed

theorem gen_commands_win_commands_witness:
  "(\<exists>p. gen_commands example_env (example_host 2 ''10.2.2.3'' ''WINDOWS'' AGENT None)
          ''p1'' False None None [] None = Inr p \<and>
        win_commands p =
          [[CHR ''d'', CHR ''e'', CHR ''l'', CHR '' '', CHR ''/'', CHR ''q'', CHR '' '',
            CHR ''/'', CHR ''s'', CHR '' '', CHR ''/'', CHR ''f'', CHR '' '',
            CHR ''C'', CHR '':'', CHR ''/'', CHR ''t'', CHR ''m'', CHR ''p'', CHR 0x5C] @
             ''setup_agent.bat C:/tmp'' @ [CHR 0x5C] @ ''gsectl.bat'',
           ''C:/tmp'' @ [CHR 0x5C] @ ''curl.exe http://10.1.1.9/download/setup_agent.bat -o C:/tmp''
             @ [CHR 0x5C] @ ''setup_agent.bat -sSf'',
           run_cmd p]) \<and>
   (\<exists>p. gen_commands example_env (example_host 1 ''10.2.2.2'' ''LINUX'' AGENT None)
          ''p1'' False None None [] None = Inr p \<and> win_commands p = [])"
proof -
  from example_windows_agent_plan obtain p
    where p: "gen_commands example_env (example_host 2 ''10.2.2.3'' ''WINDOWS'' AGENT None)
                ''p1'' False None None [] None = Inr p" by blast
  from example_agent_plan obtain q
    where q: "gen_commands example_env (example_host 1 ''10.2.2.2'' ''LINUX'' AGENT None)
                ''p1'' False None None [] None = Inr q" by blast
  have fields: "script_file_name p = ''setup_agent.bat''" "dest_dir p = ''C:/tmp'' @ [CHR 0x5C]"
      "plan_ap p = example_ap"
    using p by (auto simp add: plan_defs example_defs)
  have "win_commands p =
          [[CHR ''d'', CHR ''e'', CHR ''l'', CHR '' '', CHR ''/'', CHR ''q'', CHR '' '',
            CHR ''/'', CHR ''s'', CHR '' '', CHR ''/'', CHR ''f'', CHR '' '',
            CHR ''C'', CHR '':'', CHR ''/'', CHR ''t'', CHR ''m'', CHR ''p'', CHR 0x5C] @
             ''setup_agent.bat C:/tmp'' @ [CHR 0x5C] @ ''gsectl.bat'',
           ''C:/tmp'' @ [CHR 0x5C] @ ''curl.exe http://10.1.1.9/download/setup_agent.bat -o C:/tmp''
             @ [CHR 0x5C] @ ''setup_agent.bat -sSf'',
           run_cmd p]"
    using gen_commands_win_commands [OF p] fields
    by (simp add: example_defs)
  moreover have "win_commands q = []"
    using gen_commands_win_commands [OF q] by (simp add: example_defs)
  ultimately show ?thesis using p q by blast
qed

subsection \<open>The upstream nodes\<close>

text \<open>
  Claim C1 does not hold of the code. \<open>upstream_nodes\<close> is \<^verbatim>\<open>list(set(task_servers))\<close>
  where \<^verbatim>\<open>task_servers\<close> is the comma-joined string, so every element of it is one
  character.
\<close>

lemma gen_commands_upstream_nodes_length:
  assumes "gen_commands e h pid un ia aa pa ca = Inr p"
  shows "\<forall>n \<in> set (upstream_nodes p). length n = 1"
proof -
  from gen_commands_Inr [OF assms] obtain js bt d0 d t pkg cb and cfg :: agent_config
      and script dest run win dl
    where "p = make_plan e h (or_else aa (host_ap e h)) (or_else ia (host_identity e h))
                 (list_or pa (host_proxies e h)) js t script dest run win dl"
    by blast
  then show ?thesis
    by (auto simp: make_plan_fields list_of_set_def chars_of_def)
qed

text \<open>
  Claim C1, on the input of the claim: for a \<open>PAGENT\<close> host whose proxies have the inner
  IPs 10.0.0.1, 10.0.0.1 and 10.0.0.2, the upstream nodes of the plan are the distinct
  characters of \<^verbatim>\<open>10.0.0.1,10.0.0.2\<close>, not the two addresses.
\<close>

theorem gen_commands_upstream_nodes_characters:
  "map_sum id upstream_nodes
     (gen_commands example_env (example_host 3 ''10.2.2.4'' ''LINUX'' PAGENT None)
        ''p1'' False None None example_proxies None)
     = Inr ['','', ''1'', ''0'', ''.'', ''2'']"
  by (simp add: plan_defs example_defs)

subsection \<open>The data-server and task-server parameters\<close>

text \<open>Two neighbours of a parameter list are neighbours in the joined command.\<close>

lemma adjacent_in_Cons: "adjacent_in a k xs \<Longrightarrow> adjacent_in a k (x # xs)"
  unfolding adjacent_in_def by (metis append_Cons)

lemma adjacent_in_append: "adjacent_in a k xs \<Longrightarrow> adjacent_in a k (xs @ ys)"
  unfolding adjacent_in_def by (metis append_Cons append_assoc)

lemma join_Cons_prefix: "\<exists>post. join sep (k # vs) = k @ post"
  by (cases vs) auto

lemma join_adjacent_aux:
  "\<exists>pre post. join sep (us @ a # k # vs) = pre @ a @ sep @ k @ post"
proof (induction us)
  case Nil
  from join_Cons_prefix [of sep k vs] obtain post where "join sep (k # vs) = k @ post" ..
  then have "join sep ([] @ a # k # vs) = [] @ a @ sep @ k @ post" by simp
  then show ?case by blast
next
  case (Cons u us)
  then obtain pre post where ih: "join sep (us @ a # k # vs) = pre @ a @ sep @ k @ post"
    by blast
  obtain y ys where "us @ a # k # vs = y # ys" by (cases us) auto
  then have "join sep ((u # us) @ a # k # vs) = u @ sep @ join sep (us @ a # k # vs)"
    by simp
  with ih have "join sep ((u # us) @ a # k # vs) = (u @ sep @ pre) @ a @ sep @ k @ post"
    by simp
  then show ?case by blast
qed

lemma join_adjacent:
  "adjacent_in a k xs \<Longrightarrow> \<exists>pre post. join sep xs = pre @ a @ sep @ k @ post"
  unfolding adjacent_in_def using join_adjacent_aux by blast

lemma run_cmd_params_base_adjacent:
  "adjacent_in (''-a '' @ [CHR 0x22] @ d @ [CHR 0x22]) (''-k '' @ [CHR 0x22] @ t @ [CHR 0x22])
     (run_cmd_params_base pid cb pkg tok ports bt d t)"
  unfolding adjacent_in_def
  by (rule exI [of _ "butlast (butlast (run_cmd_params_base pid cb pkg tok ports bt d t))"],
      rule exI [of _ "[]"])
     (simp add: run_cmd_params_base_def)

lemma pagent_branch_run:
  assumes "pagent_branch e h un idt ap cfg js pkg script params = Inr (dest, run, dl)"
      and "adjacent_in a k params"
  shows "\<exists>L. run = join '' '' L \<and> adjacent_in a k L"
  using assms(1) unfolding pagent_branch_def Let_def
  by (auto split: sum.splits option.splits if_splits
           intro!: exI conjI adjacent_in_Cons adjacent_in_append assms(2))

lemma direct_branch_run:
  assumes "direct_branch e h un ap cfg pkg script dest params = Inr (run, win, dl)"
      and "adjacent_in a k params"
  shows "\<exists>L pre post. run = pre @ join '' '' L @ post \<and> adjacent_in a k L"
proof -
  let ?L = "params @
            [''-i '' @ str_int (bk_cloud_id h),
             ''-I '' @ inner_ip h,
             ''-N SERVER'',
             ''-p '' @ setup_path cfg,
             ''-T '' @ dest,
             (if un then ''-R'' else [])]"
  have L: "adjacent_in a k ?L" by (rule adjacent_in_append [OF assms(2)])
  from assms(1) have
    f: "format_run_cmd_by_os_type (const e) (os_type h)
          (Some (dest @ script @ '' '' @ join '' '' ?L)) = Inr run"
    unfolding direct_branch_def Let_def by (auto split: sum.splits)
  then have "run = (dest @ script @ '' '') @ join '' '' ?L @ [] \<or>
             (\<exists>shell. run = (''nohup '' @ shell @ '' '' @ dest @ script @ '' '') @
                join '' '' ?L @ '' &'')"
    unfolding format_run_cmd_by_os_type_def Let_def
    by (auto split: if_splits option.splits)
  with L show ?thesis by blast
qed

text \<open>The strings that \<open>fetch_gse_servers\<close> returns are the pools of the
  specification; its two data-server slots hold the same string.\<close>

lemma fetch_gse_servers_pools:
  assumes "fetch_gse_servers e h ap proxies channel = Inr (js, bt, d0, d, t, pkg, cb)"
  shows "d0 = d \<and>
         bt = spec_pool_servers e h proxies (us_btfileserver (snd channel)) (btfileserver ap) \<and>
         d = spec_pool_servers e h proxies (us_dataserver (snd channel)) (dataserver ap) \<and>
         t = spec_pool_servers e h proxies (us_taskserver (snd channel)) (taskserver ap)"
  using assms
  by (cases "node_type h")
     (auto simp: fetch_gse_servers_def spec_pool_servers_def Let_def
           split: if_splits option.splits prod.splits sum.splits)

text \<open>
  Claim C5. Both data-server slots of \<open>fetch_gse_servers\<close> hold the data-server string
  and the slot after them holds the task-server string, each as the specification
  resolves the pool. In every plan the run command has the parameter \<^verbatim>\<open>-a\<close> with exactly
  the data-server string, followed by the parameter \<^verbatim>\<open>-k\<close> with exactly the task-server
  string.
\<close>

theorem gen_commands_data_task_params:
  assumes \<open>gen_commands e h pid un ia aa pa ca = Inr p\<close>
  shows \<open>(\<forall>js bt d0 d t pkg cb.
            fetch_gse_servers e h (or_else aa (host_ap e h)) (list_or pa (host_proxies e h))
              (or_else ca (host_install_channel e h)) = Inr (js, bt, d0, d, t, pkg, cb) \<longrightarrow>
            d0 = d \<and>
            d = spec_pool_servers e h (list_or pa (host_proxies e h))
                  (us_dataserver (snd (or_else ca (host_install_channel e h))))
                  (dataserver (or_else aa (host_ap e h))) \<and>
            t = spec_pool_servers e h (list_or pa (host_proxies e h))
                  (us_taskserver (snd (or_else ca (host_install_channel e h))))
                  (taskserver (or_else aa (host_ap e h)))) \<and>
         (\<exists>pre post.
            run_cmd p =
              pre @
              (''-a "'' @
               spec_pool_servers e h (list_or pa (host_proxies e h))
                 (us_dataserver (snd (or_else ca (host_install_channel e h))))
                 (dataserver (or_else aa (host_ap e h))) @ ''"'') @
              '' '' @
              (''-k "'' @
               spec_pool_servers e h (list_or pa (host_proxies e h))
                 (us_taskserver (snd (or_else ca (host_install_channel e h))))
                 (taskserver (or_else aa (host_ap e h))) @ ''"'') @
              post)\<close>
proof -
  let ?ap = "or_else aa (host_ap e h)"
  let ?px = "list_or pa (host_proxies e h)"
  let ?ch = "or_else ca (host_install_channel e h)"
  let ?D = "spec_pool_servers e h ?px (us_dataserver (snd ?ch)) (dataserver ?ap)"
  let ?T = "spec_pool_servers e h ?px (us_taskserver (snd ?ch)) (taskserver ?ap)"
  let ?a = "''-a '' @ [CHR 0x22] @ ?D @ [CHR 0x22]"
  let ?k = "''-k '' @ [CHR 0x22] @ ?T @ [CHR 0x22]"
  from gen_commands_Inr [OF assms] obtain js bt d0 d t pkg cb and cfg :: agent_config
      and script dest run win dl
    where f: "fetch_gse_servers e h ?ap ?px ?ch = Inr (js, bt, d0, d, t, pkg, cb)"
      and br: "if script = SETUP_PAGENT_PY (const e)
            then pagent_branch e h un (or_else ia (host_identity e h)) ?ap cfg js pkg script
                   (run_cmd_params_base pid cb pkg (token_of e h pid) (port_config ?ap) bt d t)
                   = Inr (dest, run, dl) \<and> win = []
            else dest = suffix_slash e (lower (os_type h)) (temp_path cfg) \<and>
                 direct_branch e h un ?ap cfg pkg script dest
                   (run_cmd_params_base pid cb pkg (token_of e h pid) (port_config ?ap) bt d t)
                   = Inr (run, win, dl)"
      and p: "p = make_plan e h ?ap (or_else ia (host_identity e h)) ?px js t script dest run
                    win dl"
    by blast
  have d: "d = ?D" using fetch_gse_servers_pools [OF f] by (elim conjE)
  have t: "t = ?T" using fetch_gse_servers_pools [OF f] by (elim conjE)
  have adj: "adjacent_in ?a ?k
               (run_cmd_params_base pid cb pkg (token_of e h pid) (port_config ?ap) bt ?D ?T)"
    by (rule run_cmd_params_base_adjacent)
  have "\<exists>L pre post. run = pre @ join '' '' L @ post \<and> adjacent_in ?a ?k L"
  proof (cases "script = SETUP_PAGENT_PY (const e)")
    case True
    note br [unfolded if_P [OF True]]
    then have "pagent_branch e h un (or_else ia (host_identity e h)) ?ap cfg js pkg script
                   (run_cmd_params_base pid cb pkg (token_of e h pid) (port_config ?ap) bt d t)
                   = Inr (dest, run, dl)" by (rule conjunct1)
    then have "pagent_branch e h un (or_else ia (host_identity e h)) ?ap cfg js pkg script
                   (run_cmd_params_base pid cb pkg (token_of e h pid) (port_config ?ap) bt ?D ?T)
                   = Inr (dest, run, dl)" using d t by (simp only:)
    from pagent_branch_run [OF this adj] obtain L
      where L: "run = join '' '' L" "adjacent_in ?a ?k L" by (elim exE conjE)
    from L(1) have "run = [] @ join '' '' L @ []" by (simp only: append_Nil append_Nil2)
    with L(2) show ?thesis by (intro exI conjI)
  next
    case False
    note br [unfolded if_not_P [OF False]]
    then have "direct_branch e h un ?ap cfg pkg script dest
                   (run_cmd_params_base pid cb pkg (token_of e h pid) (port_config ?ap) bt d t)
                   = Inr (run, win, dl)" by (rule conjunct2)
    then have "direct_branch e h un ?ap cfg pkg script dest
                   (run_cmd_params_base pid cb pkg (token_of e h pid) (port_config ?ap) bt ?D ?T)
                   = Inr (run, win, dl)" using d t by (simp only:)
    from direct_branch_run [OF this adj] show ?thesis .
  qed
  then obtain L pre post where run: "run = pre @ join '' '' L @ post"
      and L: "adjacent_in ?a ?k L" by (elim exE conjE)
  from join_adjacent [OF L, of "'' ''"] obtain pre' post'
    where j: "join '' '' L = pre' @ ?a @ '' '' @ ?k @ post'" by (elim exE)
  have rp: "run_cmd p = run" unfolding p by (rule make_plan_fields)
  have "run = (pre @ pre') @ ?a @ '' '' @ ?k @ (post' @ post)"
    unfolding run j by (simp only: append_assoc)
  with rp have r: "run_cmd p = (pre @ pre') @ ?a @ '' '' @ ?k @ (post' @ post)"
    by (rule trans)
  have lit: "\<And>x. ''-a '' @ [CHR 0x22] @ x @ [CHR 0x22] = ''-a \"'' @ x @ ''\"''"
            "\<And>x. ''-k '' @ [CHR 0x22] @ x @ [CHR 0x22] = ''-k \"'' @ x @ ''\"''"
    by simp_all
  have part1: "\<forall>js bt d0 d t pkg cb.
            fetch_gse_servers e h ?ap ?px ?ch = Inr (js, bt, d0, d, t, pkg, cb) \<longrightarrow>
            d0 = d \<and> d = ?D \<and> t = ?T"
  proof (intro allI impI)
    fix js' bt' d0' d' t' pkg' cb'
    assume "fetch_gse_servers e h ?ap ?px ?ch = Inr (js', bt', d0', d', t', pkg', cb')"
    from fetch_gse_servers_pools [OF this]
    show "d0' = d' \<and> d' = ?D \<and> t' = ?T" by blast
  qed
  have part2: "\<exists>pre post. run_cmd p = pre @ (''-a \"'' @ ?D @ ''\"'') @ '' '' @
                    (''-k \"'' @ ?T @ ''\"'') @ post"
    by (rule exI, rule exI, rule r [unfolded lit])
  from part1 part2 show ?thesis by (rule conjI)
qed

theorem gen_commands_data_task_params_witness:
  \<open>\<exists>p pre post.
     gen_commands example_env (example_host 1 ''10.2.2.2'' ''LINUX'' AGENT None)
       ''p1'' False None None [] None = Inr p \<and>
     run_cmd p = pre @ ''-a "10.1.1.2" -k "10.1.1.3"'' @ post\<close>
proof -
  from example_agent_plan obtain p
    where p: "gen_commands example_env (example_host 1 ''10.2.2.2'' ''LINUX'' AGENT None)
                ''p1'' False None None [] None = Inr p" by blast
  from gen_commands_data_task_params [OF p, THEN conjunct2]
  have "\<exists>pre post. run_cmd p = pre @ ''-a \"10.1.1.2\" -k \"10.1.1.3\"'' @ post"
    by (simp add: spec_pool_servers_def has_install_channel_def list_or_def example_defs)
  with p show ?thesis by blast
qed

subsection \<open>Determinism\<close>

text \<open>The functions read the environment only through the values named here. Without
  an install channel, only a \<open>PAGENT\<close> host needs the random draw and the order of a set
  to resolve its servers.\<close>

lemma fetch_gse_servers_no_draw:
  assumes "settings e1 = settings e2"
      and "has_install_channel h \<or> node_type h \<noteq> PAGENT"
  shows "fetch_gse_servers e1 h ap proxies channel = fetch_gse_servers e2 h ap proxies channel"
  using assms
  by (cases "node_type h")
     (simp_all add: fetch_gse_servers_def gen_nginx_download_url_def Let_def
           cong: if_cong option.case_cong sum.case_cong prod.case_cong)

lemma fetch_gse_servers_same_draw:
  assumes "settings e1 = settings e2"
      and "list_of_set (str_hash e1) (map inner_ip proxies) =
           list_of_set (str_hash e2) (map inner_ip proxies)"
      and "get_random_alive_proxy e1 proxies = get_random_alive_proxy e2 proxies"
  shows "fetch_gse_servers e1 h ap proxies channel = fetch_gse_servers e2 h ap proxies channel"
  using assms
  by (simp add: fetch_gse_servers_def gen_nginx_download_url_def Let_def
           cong: if_cong option.case_cong sum.case_cong prod.case_cong)

lemma channel_params_env:
  assumes "host_install_channel e1 h = host_install_channel e2 h"
  shows "channel_params e1 h = channel_params e2 h"
  using assms by (simp add: channel_params_def)

lemma pagent_branch_env:
  assumes "settings e1 = settings e2" and "const e1 = const e2"
      and "suffix_slash e1 = suffix_slash e2"
      and "host_install_channel e1 h = host_install_channel e2 h"
  shows "pagent_branch e1 h un idt ap cfg js pkg script params =
         pagent_branch e2 h un idt ap cfg js pkg script params"
  using assms channel_params_env [OF assms(4)]
  by (simp add: pagent_branch_def gen_nginx_download_url_def Let_def
           cong: if_cong option.case_cong sum.case_cong prod.case_cong)

lemma direct_branch_env:
  assumes "const e1 = const e2"
  shows "direct_branch e1 h un ap cfg pkg script dest params =
         direct_branch e2 h un ap cfg pkg script dest params"
  using assms
  by (simp add: direct_branch_def Let_def
           cong: if_cong option.case_cong sum.case_cong prod.case_cong)

lemma make_plan_env:
  assumes "str_hash e1 = str_hash e2"
  shows "make_plan e1 h ap idt proxies js t script dest run win dl =
         make_plan e2 h ap idt proxies js t script dest run win dl"
  using assms by (simp add: make_plan_def)

lemma make_plan_up_to_order:
  "(make_plan e1 h ap idt proxies js t script dest run win dl)\<lparr>upstream_nodes := []\<rparr> =
   (make_plan e2 h ap idt proxies js t script dest run win dl)\<lparr>upstream_nodes := []\<rparr>"
  "set (upstream_nodes (make_plan e1 h ap idt proxies js t script dest run win dl)) =
   set (upstream_nodes (make_plan e2 h ap idt proxies js t script dest run win dl))"
  by (simp_all add: make_plan_def Let_def list_of_set_def)

lemma gen_commands_up_to_order:
  assumes "settings e1 = settings e2" and "const e1 = const e2"
      and "suffix_slash e1 = suffix_slash e2"
      and "token_of e1 h pid = token_of e2 h pid"
      and "host_ap e1 h = host_ap e2 h" and "host_identity e1 h = host_identity e2 h"
      and "host_install_channel e1 h = host_install_channel e2 h"
      and "host_proxies e1 h = host_proxies e2 h"
      and f: "\<And>ap ch. fetch_gse_servers e1 h ap (list_or pa (host_proxies e2 h)) ch =
                       fetch_gse_servers e2 h ap (list_or pa (host_proxies e2 h)) ch"
  shows "map_sum id (\<lambda>p. p\<lparr>upstream_nodes := []\<rparr>) (gen_commands e1 h pid un ia aa pa ca) =
         map_sum id (\<lambda>p. p\<lparr>upstream_nodes := []\<rparr>) (gen_commands e2 h pid un ia aa pa ca)"
    and "map_sum id (\<lambda>p. set (upstream_nodes p)) (gen_commands e1 h pid un ia aa pa ca) =
         map_sum id (\<lambda>p. set (upstream_nodes p)) (gen_commands e2 h pid un ia aa pa ca)"
proof -
  note pb = pagent_branch_env [OF assms(1,2,3,7)]
  note db = direct_branch_env [OF assms(2)]
  show "map_sum id (\<lambda>p. p\<lparr>upstream_nodes := []\<rparr>) (gen_commands e1 h pid un ia aa pa ca) =
         map_sum id (\<lambda>p. p\<lparr>upstream_nodes := []\<rparr>) (gen_commands e2 h pid un ia aa pa ca)"
    unfolding gen_commands_def Let_def
    by (simp add: assms(2,3,4,5,6,7,8) f pb db make_plan_up_to_order(1) [of e1 _ _ _ _ _ _ _ _ _ _ _ e2]
             split: sum.splits prod.splits)
  show "map_sum id (\<lambda>p. set (upstream_nodes p)) (gen_commands e1 h pid un ia aa pa ca) =
         map_sum id (\<lambda>p. set (upstream_nodes p)) (gen_commands e2 h pid un ia aa pa ca)"
    unfolding gen_commands_def Let_def
    by (simp add: assms(2,3,4,5,6,7,8) f pb db make_plan_up_to_order(2) [of e1 _ _ _ _ _ _ _ _ _ _ _ e2]
             split: sum.splits prod.splits)
qed

lemma gen_commands_same:
  assumes "settings e1 = settings e2" and "const e1 = const e2"
      and "suffix_slash e1 = suffix_slash e2"
      and "token_of e1 h pid = token_of e2 h pid"
      and "host_ap e1 h = host_ap e2 h" and "host_identity e1 h = host_identity e2 h"
      and "host_install_channel e1 h = host_install_channel e2 h"
      and "host_proxies e1 h = host_proxies e2 h"
      and f: "\<And>ap ch. fetch_gse_servers e1 h ap (list_or pa (host_proxies e2 h)) ch =
                       fetch_gse_servers e2 h ap (list_or pa (host_proxies e2 h)) ch"
      and "str_hash e1 = str_hash e2"
  shows "gen_commands e1 h pid un ia aa pa ca = gen_commands e2 h pid un ia aa pa ca"
proof -
  note pb = pagent_branch_env [OF assms(1,2,3,7)]
  note db = direct_branch_env [OF assms(2)]
  note mp = make_plan_env [OF assms(10)]
  show ?thesis
    unfolding gen_commands_def Let_def
    by (simp add: assms(2,3,4,5,6,7,8) f pb db mp
             cong: if_cong sum.case_cong prod.case_cong)
qed

text \<open>
  Claim C4, as stated, fails: the code draws the jump server of a \<open>PAGENT\<close> host at
  random and takes \<^verbatim>\<open>list(set(...))\<close> in the iteration order of the set, and neither is
  an input or a lookup result. With the same arguments, timestamp and records, another
  draw gives another jump server, and another order of sets gives another order of the
  upstream nodes; the plans differ.
\<close>

theorem gen_commands_determinism_counterexample:
  "map_sum id jump_server
     (gen_commands (example_env_draw 0) (example_host 3 ''10.2.2.4'' ''LINUX'' PAGENT None)
        ''p1'' False None None [] None)
     = Inr (Some (example_host 101 ''10.0.0.1'' ''LINUX'' PROXY None)) \<and>
   map_sum id jump_server
     (gen_commands (example_env_draw 2) (example_host 3 ''10.2.2.4'' ''LINUX'' PAGENT None)
        ''p1'' False None None [] None)
     = Inr (Some (example_host 103 ''10.0.0.2'' ''LINUX'' PROXY None)) \<and>
   gen_commands (example_env_draw 0) (example_host 3 ''10.2.2.4'' ''LINUX'' PAGENT None)
        ''p1'' False None None [] None \<noteq>
   gen_commands (example_env_draw 2) (example_host 3 ''10.2.2.4'' ''LINUX'' PAGENT None)
        ''p1'' False None None [] None \<and>
   map_sum id upstream_nodes
     (gen_commands example_env (example_host 3 ''10.2.2.4'' ''LINUX'' PAGENT None)
        ''p1'' False None None [] None)
     = Inr ['','', ''1'', ''0'', ''.'', ''2''] \<and>
   map_sum id upstream_nodes
     (gen_commands example_env_order (example_host 3 ''10.2.2.4'' ''LINUX'' PAGENT None)
        ''p1'' False None None [] None)
     = Inr [''2'', '','', ''0'', ''.'', ''1''] \<and>
   gen_commands example_env (example_host 3 ''10.2.2.4'' ''LINUX'' PAGENT None)
        ''p1'' False None None [] None \<noteq>
   gen_commands example_env_order (example_host 3 ''10.2.2.4'' ''LINUX'' PAGENT None)
        ''p1'' False None None [] None"
proof -
  let ?h = "example_host 3 ''10.2.2.4'' ''LINUX'' PAGENT None"
  have a: "map_sum id jump_server (gen_commands (example_env_draw 0) ?h ''p1'' False
             None None [] None) = Inr (Some (example_host 101 ''10.0.0.1'' ''LINUX'' PROXY None))"
    by (simp add: example_env_draw_def plan_defs example_defs)
  have b: "map_sum id jump_server (gen_commands (example_env_draw 2) ?h ''p1'' False
             None None [] None) = Inr (Some (example_host 103 ''10.0.0.2'' ''LINUX'' PROXY None))"
    by (simp add: example_env_draw_def plan_defs example_defs)
  have c: "map_sum id upstream_nodes (gen_commands example_env ?h ''p1'' False
             None None [] None) = Inr ['','', ''1'', ''0'', ''.'', ''2'']"
    by (simp add: plan_defs example_defs)
  have d: "map_sum id upstream_nodes (gen_commands example_env_order ?h ''p1'' False
             None None [] None) = Inr [''2'', '','', ''0'', ''.'', ''1'']"
    by (simp add: example_env_order_def plan_defs example_defs)
  have ab: "gen_commands (example_env_draw 0) ?h ''p1'' False None None [] None \<noteq>
            gen_commands (example_env_draw 2) ?h ''p1'' False None None [] None"
  proof
    assume "gen_commands (example_env_draw 0) ?h ''p1'' False None None [] None =
            gen_commands (example_env_draw 2) ?h ''p1'' False None None [] None"
    with a b have "(Inr (Some (example_host 101 ''10.0.0.1'' ''LINUX'' PROXY None))
                     :: error + host option) =
                   Inr (Some (example_host 103 ''10.0.0.2'' ''LINUX'' PROXY None))"
      by (simp only:)
    then show False by (simp add: example_host_def)
  qed
  have cd: "gen_commands example_env ?h ''p1'' False None None [] None \<noteq>
            gen_commands example_env_order ?h ''p1'' False None None [] None"
  proof
    assume "gen_commands example_env ?h ''p1'' False None None [] None =
            gen_commands example_env_order ?h ''p1'' False None None [] None"
    with c d have "(Inr ['','', ''1'', ''0'', ''.'', ''2''] :: error + string list) =
                   Inr [''2'', '','', ''0'', ''.'', ''1'']"
      by (simp only:)
    then show False by simp
  qed
  from a b ab c d cd show ?thesis by (intro conjI)
qed

text \<open>
  Claim C4, amended. Let two calls of \<open>gen_commands\<close> have the same arguments, the same
  timestamp and token, and the same settings, constants and records of the host. If the
  order of sets is the same in both calls and, for a \<open>PAGENT\<close> host without an install
  channel, the same proxy is drawn, the two results are identical (the same plan, field
  by field, or the same error). Whatever the order of sets, the two plans agree on every
  field but the order of the upstream nodes, whose elements are the same, for a host with
  an install channel or of role \<open>AGENT\<close> or \<open>PROXY\<close>, and for a \<open>PAGENT\<close> host when the
  drawn proxy and the order of the inner IPs of the proxies are the same.
\<close>

theorem gen_commands_determinism:
  assumes "settings e1 = settings e2" and "const e1 = const e2"
      and "suffix_slash e1 = suffix_slash e2"
      and "time_now e1 = time_now e2"
      and "encrypt e1 (inner_ip h @ ''|'' @ str_int (bk_cloud_id h) @ ''|'' @ pid @ ''|'' @
                        time_now e1) =
           encrypt e2 (inner_ip h @ ''|'' @ str_int (bk_cloud_id h) @ ''|'' @ pid @ ''|'' @
                        time_now e2)"
      and "host_ap e1 h = host_ap e2 h" and "host_identity e1 h = host_identity e2 h"
      and "host_install_channel e1 h = host_install_channel e2 h"
      and "host_proxies e1 h = host_proxies e2 h"
  shows "(str_hash e1 = str_hash e2 \<and>
          (has_install_channel h \<or> node_type h \<noteq> PAGENT \<or>
           get_random_alive_proxy e1 (list_or pa (host_proxies e1 h)) =
           get_random_alive_proxy e2 (list_or pa (host_proxies e2 h))) \<longrightarrow>
            gen_commands e1 h pid un ia aa pa ca = gen_commands e2 h pid un ia aa pa ca) \<and>
         (has_install_channel h \<or> node_type h \<noteq> PAGENT \<or>
          (get_random_alive_proxy e1 (list_or pa (host_proxies e1 h)) =
           get_random_alive_proxy e2 (list_or pa (host_proxies e2 h)) \<and>
           list_of_set (str_hash e1) (map inner_ip (list_or pa (host_proxies e1 h))) =
           list_of_set (str_hash e2) (map inner_ip (list_or pa (host_proxies e2 h)))) \<longrightarrow>
            map_sum id (\<lambda>p. p\<lparr>upstream_nodes := []\<rparr>) (gen_commands e1 h pid un ia aa pa ca) =
            map_sum id (\<lambda>p. p\<lparr>upstream_nodes := []\<rparr>) (gen_commands e2 h pid un ia aa pa ca) \<and>
            map_sum id (\<lambda>p. set (upstream_nodes p)) (gen_commands e1 h pid un ia aa pa ca) =
            map_sum id (\<lambda>p. set (upstream_nodes p)) (gen_commands e2 h pid un ia aa pa ca))"
proof -
  let ?px = "list_or pa (host_proxies e2 h)"
  have tok: "token_of e1 h pid = token_of e2 h pid"
    using assms(5) by (simp add: token_of_def)
  have f1: "fetch_gse_servers e1 h ap ?px ch = fetch_gse_servers e2 h ap ?px ch"
    if "has_install_channel h \<or> node_type h \<noteq> PAGENT" for ap ch
    using assms(1) that by (rule fetch_gse_servers_no_draw)
  have f2: "fetch_gse_servers e1 h ap ?px ch = fetch_gse_servers e2 h ap ?px ch"
    if "get_random_alive_proxy e1 (list_or pa (host_proxies e1 h)) =
        get_random_alive_proxy e2 (list_or pa (host_proxies e2 h))"
       "list_of_set (str_hash e1) (map inner_ip (list_or pa (host_proxies e1 h))) =
        list_of_set (str_hash e2) (map inner_ip (list_or pa (host_proxies e2 h)))"
    for ap ch
    using assms(1) that unfolding assms(9) by (intro fetch_gse_servers_same_draw)
  have full: "gen_commands e1 h pid un ia aa pa ca = gen_commands e2 h pid un ia aa pa ca"
    if s: "str_hash e1 = str_hash e2"
      and c: "has_install_channel h \<or> node_type h \<noteq> PAGENT \<or>
           get_random_alive_proxy e1 (list_or pa (host_proxies e1 h)) =
           get_random_alive_proxy e2 (list_or pa (host_proxies e2 h))"
  proof -
    have "fetch_gse_servers e1 h ap ?px ch = fetch_gse_servers e2 h ap ?px ch" for ap ch
    proof (cases "has_install_channel h \<or> node_type h \<noteq> PAGENT")
      case True
      then show ?thesis by (rule f1)
    next
      case False
      with c have "get_random_alive_proxy e1 (list_or pa (host_proxies e1 h)) =
           get_random_alive_proxy e2 (list_or pa (host_proxies e2 h))" by blast
      then show ?thesis using s assms(9) by (intro f2) simp_all
    qed
    with assms(1,2,3) tok assms(6,7,8,9) show ?thesis
      using s by (intro gen_commands_same)
  qed
  have upto: "map_sum id (\<lambda>p. p\<lparr>upstream_nodes := []\<rparr>) (gen_commands e1 h pid un ia aa pa ca) =
            map_sum id (\<lambda>p. p\<lparr>upstream_nodes := []\<rparr>) (gen_commands e2 h pid un ia aa pa ca) \<and>
            map_sum id (\<lambda>p. set (upstream_nodes p)) (gen_commands e1 h pid un ia aa pa ca) =
            map_sum id (\<lambda>p. set (upstream_nodes p)) (gen_commands e2 h pid un ia aa pa ca)"
    if c: "has_install_channel h \<or> node_type h \<noteq> PAGENT \<or>
          (get_random_alive_proxy e1 (list_or pa (host_proxies e1 h)) =
           get_random_alive_proxy e2 (list_or pa (host_proxies e2 h)) \<and>
           list_of_set (str_hash e1) (map inner_ip (list_or pa (host_proxies e1 h))) =
           list_of_set (str_hash e2) (map inner_ip (list_or pa (host_proxies e2 h))))"
  proof -
    have f: "fetch_gse_servers e1 h ap ?px ch = fetch_gse_servers e2 h ap ?px ch" for ap ch
    proof (cases "has_install_channel h \<or> node_type h \<noteq> PAGENT")
      case True
      then show ?thesis by (rule f1)
    next
      case False
      with c show ?thesis by (intro f2) blast+
    qed
    from gen_commands_up_to_order [OF assms(1,2,3) tok assms(6,7,8,9) f]
    show ?thesis by (rule conjI)
  qed
  from full upto show ?thesis by blast
qed

theorem gen_commands_determinism_witness:
  "(\<exists>p. gen_commands example_env (example_host 3 ''10.2.2.4'' ''LINUX'' PAGENT None)
          ''p1'' False None None [] None = Inr p) \<and>
   gen_commands example_env (example_host 3 ''10.2.2.4'' ''LINUX'' PAGENT None)
     ''p1'' False None None [] None =
   gen_commands (example_env\<lparr>encrypt := (\<lambda>s. if s = ''10.2.2.4|1|p1|1700000000.0''
                                             then ''token'' else ''other''),
                              random_index := (\<lambda>hs. 3),
                              identity_objects := [example_identity]\<rparr>)
     (example_host 3 ''10.2.2.4'' ''LINUX'' PAGENT None) ''p1'' False None None [] None \<and>
   (\<exists>p. gen_commands example_env (example_host 1 ''10.2.2.2'' ''LINUX'' AGENT None)
          ''p1'' False None None [] None = Inr p) \<and>
   map_sum id (\<lambda>p. p\<lparr>upstream_nodes := []\<rparr>)
     (gen_commands example_env (example_host 1 ''10.2.2.2'' ''LINUX'' AGENT None)
        ''p1'' False None None [] None) =
   map_sum id (\<lambda>p. p\<lparr>upstream_nodes := []\<rparr>)
     (gen_commands (example_env_order\<lparr>random_index := (\<lambda>hs. 2)\<rparr>)
        (example_host 1 ''10.2.2.2'' ''LINUX'' AGENT None) ''p1'' False None None [] None) \<and>
   map_sum id (\<lambda>p. set (upstream_nodes p))
     (gen_commands example_env (example_host 1 ''10.2.2.2'' ''LINUX'' AGENT None)
        ''p1'' False None None [] None) =
   map_sum id (\<lambda>p. set (upstream_nodes p))
     (gen_commands (example_env_order\<lparr>random_index := (\<lambda>hs. 2)\<rparr>)
        (example_host 1 ''10.2.2.2'' ''LINUX'' AGENT None) ''p1'' False None None [] None)"
proof -
  let ?hp = "example_host 3 ''10.2.2.4'' ''LINUX'' PAGENT None"
  let ?ha = "example_host 1 ''10.2.2.2'' ''LINUX'' AGENT None"
  let ?e2 = "example_env\<lparr>encrypt := (\<lambda>s. if s = ''10.2.2.4|1|p1|1700000000.0''
                                             then ''token'' else ''other''),
                          random_index := (\<lambda>hs. 3),
                          identity_objects := [example_identity]\<rparr>"
  let ?e3 = "example_env_order\<lparr>random_index := (\<lambda>hs. 2)\<rparr>"
  have a: "gen_commands example_env ?hp ''p1'' False None None [] None =
           gen_commands ?e2 ?hp ''p1'' False None None [] None"
    by (rule gen_commands_determinism [THEN conjunct1, rule_format])
       (simp_all add: get_random_alive_proxy_def list_or_def example_defs)
  have b: "map_sum id (\<lambda>p. p\<lparr>upstream_nodes := []\<rparr>)
             (gen_commands example_env ?ha ''p1'' False None None [] None) =
           map_sum id (\<lambda>p. p\<lparr>upstream_nodes := []\<rparr>)
             (gen_commands ?e3 ?ha ''p1'' False None None [] None) \<and>
           map_sum id (\<lambda>p. set (upstream_nodes p))
             (gen_commands example_env ?ha ''p1'' False None None [] None) =
           map_sum id (\<lambda>p. set (upstream_nodes p))
             (gen_commands ?e3 ?ha ''p1'' False None None [] None)"
    by (rule gen_commands_determinism [THEN conjunct2, rule_format])
       (simp_all add: example_env_order_def has_install_channel_def example_defs)
  from example_pagent_plan a example_agent_plan b show ?thesis by (intro conjI) blast+
qed

subsection \<open>Batches\<close>

text \<open>The loop of \<open>batch_gen_commands\<close>, with its caches, computes the results of the
  hosts in order and stops at the first error.\<close>

lemma find_append:
  "find P (xs @ ys) = (case find P xs of None \<Rightarrow> find P ys | Some x \<Rightarrow> Some x)"
  by (induction xs) auto

lemma cloud_cache_snoc:
  "cloud_cache e (seen @ [h]) =
     (case cloud_cache e seen (bk_cloud_id h) of
        None \<Rightarrow> (cloud_cache e seen)(bk_cloud_id h \<mapsto> host_proxies e h)
      | Some ps \<Rightarrow> cloud_cache e seen)"
  by (rule ext) (auto simp: cloud_cache_def find_append split: option.splits)

lemma channel_cache_snoc:
  "channel_cache e (seen @ [h]) =
     (case channel_cache e seen (install_channel_id h) of
        None \<Rightarrow> (channel_cache e seen)(install_channel_id h \<mapsto> host_install_channel e h)
      | Some ps \<Rightarrow> channel_cache e seen)"
  by (rule ext) (auto simp: channel_cache_def find_append split: option.splits)

lemma batch_proxies_cache:
  "batch_proxies e (seen @ h # hs) h =
     (case cloud_cache e seen (bk_cloud_id h) of None \<Rightarrow> host_proxies e h | Some ps \<Rightarrow> ps)"
  by (auto simp: batch_proxies_def cloud_cache_def find_append split: option.splits)

lemma batch_channel_cache:
  "batch_channel e (seen @ h # hs) h =
     (case channel_cache e seen (install_channel_id h) of
        None \<Rightarrow> host_install_channel e h | Some c \<Rightarrow> c)"
  by (auto simp: batch_channel_def channel_cache_def find_append split: option.splits)

lemma batch_loop_results:
  "batch_loop e pid un (host_id_identity_map e hosts) hs
     (tools, cloud_cache e seen, channel_cache e seen) =
   batch_results
     (\<lambda>h. case map_of (ap_id_obj_map e) (ap_id h) of
            None \<Rightarrow> Inl KeyError
          | Some ap \<Rightarrow>
             gen_commands e h pid un (Some (batch_identity e hosts h)) (Some ap)
               (batch_proxies e (seen @ hs) h) (Some (batch_channel e (seen @ hs) h)))
     hs tools"
proof (induction hs arbitrary: tools seen)
  case Nil
  show ?case by simp
next
  case (Cons h hs)
  have step:
    "batch_loop e pid un (host_id_identity_map e hosts) (h # hs)
       (tools, cloud_cache e seen, channel_cache e seen) =
     (case (case map_of (ap_id_obj_map e) (ap_id h) of
              None \<Rightarrow> Inl KeyError
            | Some ap \<Rightarrow>
               gen_commands e h pid un (Some (batch_identity e hosts h)) (Some ap)
                 (batch_proxies e (seen @ h # hs) h)
                 (Some (batch_channel e (seen @ h # hs) h))) of
        Inl err \<Rightarrow> Inl err
      | Inr tool \<Rightarrow>
         batch_loop e pid un (host_id_identity_map e hosts) hs
           (tools(bk_host_id h \<mapsto> tool), cloud_cache e (seen @ [h]),
            channel_cache e (seen @ [h])))"
    by (simp add: batch_proxies_cache batch_channel_cache cloud_cache_snoc
          channel_cache_snoc batch_identity_def Let_def
          split: option.splits sum.splits)
  have app: "(seen @ [h]) @ hs = seen @ h # hs" by simp
  show ?case
    unfolding step batch_results.simps Cons.IH [of _ "seen @ [h]", unfolded app]
    by (rule refl)
qed

lemma batch_gen_commands_results:
  "batch_gen_commands e hosts pid un =
     batch_results (batch_host_result e hosts pid un) hosts Map.empty"
proof -
  have c: "cloud_cache e [] = Map.empty" "channel_cache e [] = Map.empty"
    by (simp_all add: fun_eq_iff cloud_cache_def channel_cache_def)
  note L = batch_loop_results [of e pid un hosts hosts Map.empty "[]", unfolded append_Nil c]
  show ?thesis
    unfolding batch_gen_commands_def batch_host_result_def [abs_def] by (rule L)
qed

lemma batch_results_Inr:
  "(\<exists>m. batch_results f hs tools = Inr m) = (\<forall>h \<in> set hs. \<not> isl (f h))"
  by (induction hs arbitrary: tools) (auto split: sum.splits)

lemma batch_results_dom:
  "batch_results f hs tools = Inr m \<Longrightarrow> dom m = dom tools \<union> bk_host_id ` set hs"
  by (induction hs arbitrary: tools) (auto split: sum.splits)

lemma batch_results_plan:
  "batch_results f hs tools = Inr m \<Longrightarrow> m i = Some p \<Longrightarrow>
     tools i = Some p \<or> (\<exists>h \<in> set hs. bk_host_id h = i \<and> f h = Inr p)"
proof (induction hs arbitrary: tools)
  case Nil
  then show ?case by simp
next
  case (Cons h hs)
  from Cons.prems(1) obtain tool where t: "f h = Inr tool"
      and r: "batch_results f hs (tools(bk_host_id h \<mapsto> tool)) = Inr m"
    by (auto split: sum.splits)
  from Cons.IH [OF r Cons.prems(2)] t show ?case
    by (auto split: if_splits)
qed

lemma batch_results_first_error:
  "\<forall>h \<in> set hs1. \<not> isl (f h) \<Longrightarrow> f h = Inl err \<Longrightarrow>
     batch_results f (hs1 @ h # hs2) tools = Inl err"
  by (induction hs1 arbitrary: tools) (auto split: sum.splits)

lemmas batch_defs =
  batch_host_result_def batch_identity_def batch_proxies_def batch_channel_def
  host_id_identity_map_def

text \<open>
  Claim C3, as stated, fails: the loop has no handler, so the failure of one host ends
  the whole call. With no proxy alive, the batch of an \<open>AGENT\<close> host and a \<open>PAGENT\<close> host
  raises the error of the \<open>PAGENT\<close> host and returns no map, although the plan of the
  \<open>AGENT\<close> host alone is generated.
\<close>

theorem batch_gen_commands_isolation_counterexample:
  "batch_gen_commands example_env_no_proxy
     [example_host 1 ''10.2.2.2'' ''LINUX'' AGENT None,
      example_host 3 ''10.2.2.4'' ''LINUX'' PAGENT None] ''p1'' False
     = Inl AliveProxyNotExistsError \<and>
   \<not> isl (gen_commands example_env_no_proxy (example_host 1 ''10.2.2.2'' ''LINUX'' AGENT None)
            ''p1'' False (Some example_identity) (Some example_ap) example_proxies
            (Some example_channel))"
  by (simp add: batch_gen_commands_def host_id_identity_map_def example_env_no_proxy_def
        plan_defs example_defs)

text \<open>
  Claim C3, amended. \<open>batch_gen_commands\<close> returns a map if and only if the plan of
  every host of the batch is generated; the keys of the map are then exactly the ids of
  the hosts, and each entry is the plan of a host with that id. When the plan of a host
  fails and the plans of all hosts before it are generated, the call raises the error of
  that host and returns no map.
\<close>

theorem batch_gen_commands_all_or_nothing:
  "((\<exists>m. batch_gen_commands e hosts pid un = Inr m) =
      (\<forall>h \<in> set hosts. \<not> isl (batch_host_result e hosts pid un h))) \<and>
   (\<forall>m. batch_gen_commands e hosts pid un = Inr m \<longrightarrow>
      dom m = bk_host_id ` set hosts \<and>
      (\<forall>i p. m i = Some p \<longrightarrow>
         (\<exists>h \<in> set hosts. bk_host_id h = i \<and> batch_host_result e hosts pid un h = Inr p))) \<and>
   (\<forall>hs1 h hs2 err.
      hosts = hs1 @ h # hs2 \<and>
      (\<forall>h' \<in> set hs1. \<not> isl (batch_host_result e hosts pid un h')) \<and>
      batch_host_result e hosts pid un h = Inl err \<longrightarrow>
      batch_gen_commands e hosts pid un = Inl err)"
proof (intro conjI allI impI)
  show "(\<exists>m. batch_gen_commands e hosts pid un = Inr m) =
          (\<forall>h \<in> set hosts. \<not> isl (batch_host_result e hosts pid un h))"
    unfolding batch_gen_commands_results by (rule batch_results_Inr)
next
  fix m assume "batch_gen_commands e hosts pid un = Inr m"
  then have r: "batch_results (batch_host_result e hosts pid un) hosts Map.empty = Inr m"
    by (simp only: batch_gen_commands_results)
  from batch_results_dom [OF r] show "dom m = bk_host_id ` set hosts" by simp
  fix i p assume "m i = Some p"
  from batch_results_plan [OF r this]
  show "\<exists>h \<in> set hosts. bk_host_id h = i \<and> batch_host_result e hosts pid un h = Inr p"
    by simp
next
  fix hs1 h hs2 err
  assume a: "hosts = hs1 @ h # hs2 \<and>
      (\<forall>h' \<in> set hs1. \<not> isl (batch_host_result e hosts pid un h')) \<and>
      batch_host_result e hosts pid un h = Inl err"
  then have "batch_results (batch_host_result e hosts pid un) (hs1 @ h # hs2) Map.empty
               = Inl err"
    by (intro batch_results_first_error) blast+
  with a show "batch_gen_commands e hosts pid un = Inl err"
    by (simp only: batch_gen_commands_results)
qed

theorem batch_gen_commands_all_or_nothing_witness:
  "(\<exists>m. batch_gen_commands example_env
          [example_host 1 ''10.2.2.2'' ''LINUX'' AGENT None,
           example_host 2 ''10.2.2.3'' ''WINDOWS'' AGENT None] ''p1'' False = Inr m \<and>
        dom m = {1, 2}) \<and>
   batch_gen_commands example_env_no_proxy
     [example_host 3 ''10.2.2.4'' ''LINUX'' PAGENT None,
      example_host 1 ''10.2.2.2'' ''LINUX'' AGENT None] ''p1'' False
     = Inl AliveProxyNotExistsError"
proof -
  let ?h1 = "example_host 1 ''10.2.2.2'' ''LINUX'' AGENT None"
  let ?h2 = "example_host 2 ''10.2.2.3'' ''WINDOWS'' AGENT None"
  let ?h3 = "example_host 3 ''10.2.2.4'' ''LINUX'' PAGENT None"
  note t = batch_gen_commands_all_or_nothing [of example_env "[?h1, ?h2]" "''p1''" False]
  have ok: "\<forall>h \<in> set [?h1, ?h2]. \<not> isl (batch_host_result example_env [?h1, ?h2] ''p1'' False h)"
    by (simp add: batch_defs plan_defs example_defs)
  with t [THEN conjunct1] obtain m
    where m: "batch_gen_commands example_env [?h1, ?h2] ''p1'' False = Inr m" by blast
  with t [THEN conjunct2, THEN conjunct1] have "dom m = bk_host_id ` set [?h1, ?h2]" by blast
  then have d: "dom m = {1, 2}" by (simp add: example_host_def)
  note u = batch_gen_commands_all_or_nothing
             [of example_env_no_proxy "[?h3, ?h1]" "''p1''" False,
              THEN conjunct2, THEN conjunct2, rule_format, of "[]" ?h3 "[?h1]"
                AliveProxyNotExistsError]
  have "batch_gen_commands example_env_no_proxy [?h3, ?h1] ''p1'' False
          = Inl AliveProxyNotExistsError"
    by (rule u) (simp add: batch_defs example_env_no_proxy_def plan_defs example_defs)
  with m d show ?thesis by blast
qed

end
